theory Spec2Isabelle
  imports Main
begin

section \<open>The preprocessor state\<close>

text \<open>
  The program is the header \<^verbatim>\<open>Sources/CIO/include/macros.h\<close>: a sequence of conditional
  compilation directives. What it reads and writes is the preprocessor's macro table, so the
  model threads that table through the directives in the order of the file.

  A macro's replacement list is kept as far as the header can observe it: \<open>Num v\<close> is a
  replacement that evaluates to the integer \<open>v\<close> inside an \<^verbatim>\<open>#if\<close> expression
  (\<^verbatim>\<open>#define X 1\<close>, \<^verbatim>\<open>-DX\<close>), \<open>Empty\<close> is the empty replacement list
  (\<^verbatim>\<open>#define X\<close>), which is no expression at all.
\<close>

datatype repl = Empty | Num int

type_synonym macro_table = "string \<Rightarrow> repl option"

datatype pp_error = BadIfExpression string

text \<open>
  Besides the macro table the state records the \<^verbatim>\<open>#include\<close> directives that were
  reached, in order, and the names of the macros that a \<^verbatim>\<open>#define\<close> redefined with a
  different replacement list (the one diagnostic a conforming preprocessor owes for this file;
  the file has no \<^verbatim>\<open>#error\<close> or \<^verbatim>\<open>#warning\<close>). The contents of the
  included system headers are outside the repository and are not modelled.
\<close>

record pp_state =
  macros :: macro_table
  included :: "string list"
  diags :: "string list"

definition initial :: "macro_table \<Rightarrow> pp_state" where
  "initial env = \<lparr>macros = env, included = [], diags = []\<rparr>"

text \<open>\<^verbatim>\<open>defined(X)\<close>\<close>

definition is_defined :: "macro_table \<Rightarrow> string \<Rightarrow> bool" where
  "is_defined m n = (m n \<noteq> None)"

text \<open>\<^verbatim>\<open>#define X r\<close>: the new replacement list takes effect; redefining a macro with a
  different replacement list is diagnosed, an identical redefinition is silent.\<close>

definition pp_define :: "string \<Rightarrow> repl \<Rightarrow> pp_state \<Rightarrow> pp_state" where
  "pp_define n r s =
     s\<lparr>macros := (macros s)(n \<mapsto> r),
       diags := (if macros s n = None \<or> macros s n = Some r then diags s else diags s @ [n])\<rparr>"

text \<open>\<^verbatim>\<open>#include <h>\<close>\<close>

definition pp_include :: "string \<Rightarrow> pp_state \<Rightarrow> pp_state" where
  "pp_include h s = s\<lparr>included := included s @ [h]\<rparr>"

text \<open>
  An identifier used as an operand of an \<^verbatim>\<open>#if\<close> expression: an undefined identifier
  counts as 0, a macro is replaced by its replacement list; the empty list leaves
  \<^verbatim>\<open>()\<close> behind, which is not an expression, and translation fails.
\<close>

definition pp_operand :: "macro_table \<Rightarrow> string \<Rightarrow> pp_error + int" where
  "pp_operand m n =
     (case m n of
        None \<Rightarrow> Inr 0
      | Some (Num v) \<Rightarrow> Inr v
      | Some Empty \<Rightarrow> Inl (BadIfExpression n))"

section \<open>The conditions of the header\<close>

text \<open>Line 5.\<close>

definition linux_like :: "macro_table \<Rightarrow> bool" where
  "linux_like m =
     (is_defined m ''__linux'' \<or> is_defined m ''__unix'' \<or> is_defined m ''__posix''
      \<or> is_defined m ''__LINUX__'' \<or> is_defined m ''__linux__'')"

text \<open>Line 7.\<close>

definition windows_like :: "macro_table \<Rightarrow> bool" where
  "windows_like m =
     (is_defined m ''_WIN64'' \<or> is_defined m ''_WIN32'' \<or> is_defined m ''__CYGWIN32__''
      \<or> is_defined m ''__MINGW32__'')"

text \<open>Line 9.\<close>

definition macos_like :: "macro_table \<Rightarrow> bool" where
  "macos_like m =
     (is_defined m ''MACOSX'' \<or> is_defined m ''__DARWIN__'' \<or> is_defined m ''__APPLE__'')"

text \<open>Line 14.\<close>

definition arch32_like :: "macro_table \<Rightarrow> bool" where
  "arch32_like m =
     (is_defined m ''WIN_32'' \<or> is_defined m ''__i386__'' \<or> is_defined m ''i386''
      \<or> is_defined m ''__x86__'')"

text \<open>Line 16.\<close>

definition arch64_like :: "macro_table \<Rightarrow> bool" where
  "arch64_like m =
     (is_defined m ''__amd64'' \<or> is_defined m ''__amd64__'' \<or> is_defined m ''__x86_64''
      \<or> is_defined m ''__x86_64__'' \<or> is_defined m ''_M_X64'' \<or> is_defined m ''__ia64__''
      \<or> is_defined m ''_M_IA64'')"

text \<open>
  Line 28:
  \<^verbatim>\<open>#if ((_M_IX86_FP) && (_M_IX86_FP >= 2)) || (_M_AMD64) || defined(_M_X64)\<close>.
  The whole expression is parsed before it is evaluated, so a malformed operand fails it
  whatever the other operands are.
\<close>

definition sse2_condition :: "macro_table \<Rightarrow> pp_error + bool" where
  "sse2_condition m =
     (case pp_operand m ''_M_IX86_FP'' of
        Inl e \<Rightarrow> Inl e
      | Inr fp \<Rightarrow>
          (case pp_operand m ''_M_AMD64'' of
             Inl e \<Rightarrow> Inl e
           | Inr amd \<Rightarrow> Inr ((fp \<noteq> 0 \<and> fp \<ge> 2) \<or> amd \<noteq> 0 \<or> is_defined m ''_M_X64'')))"

section \<open>The directive groups, in file order\<close>

text \<open>Lines 5 to 12: operating system family.\<close>

definition os_family :: "pp_state \<Rightarrow> pp_state" where
  "os_family s =
     (if linux_like (macros s) then pp_define ''LABSOUND_PLATFORM_LINUX'' (Num 1) s
      else if windows_like (macros s) then pp_define ''LABSOUND_PLATFORM_WINDOWS'' (Num 1) s
      else if macos_like (macros s)
        then pp_define ''__MACOSX_CORE__'' (Num 1) (pp_define ''LABSOUND_PLATFORM_OSX'' (Num 1) s)
      else s)"

text \<open>Lines 14 to 18: word width.\<close>

definition word_width :: "pp_state \<Rightarrow> pp_state" where
  "word_width s =
     (if arch32_like (macros s) then pp_define ''LABSOUND_ARCH_32'' (Num 1) s
      else if arch64_like (macros s) then pp_define ''LABSOUND_ARCH_64'' (Num 1) s
      else s)"

text \<open>Lines 20 to 26: compiler identity.\<close>

definition compiler_id :: "pp_state \<Rightarrow> pp_state" where
  "compiler_id s =
     (if is_defined (macros s) ''__clang__'' then pp_define ''LABSOUND_COMPILER_CLANG'' (Num 1) s
      else if is_defined (macros s) ''__GNUC__'' then pp_define ''LABSOUND_COMPILER_GCC'' (Num 1) s
      else if is_defined (macros s) ''_MSC_VER''
        then pp_define ''LABSOUND_COMPILER_VISUAL_STUDIO'' (Num 1) s
      else s)"

text \<open>Lines 28 to 30: SSE2. The only group whose condition can fail to evaluate.\<close>

definition simd :: "pp_state \<Rightarrow> pp_error + pp_state" where
  "simd s =
     (case sse2_condition (macros s) of
        Inl e \<Rightarrow> Inl e
      | Inr c \<Rightarrow> Inr (if c then pp_define ''__SSE2__'' Empty s else s))"

text \<open>Lines 32 to 37: the block for Visual Studio.\<close>

definition msvc_shims :: "pp_state \<Rightarrow> pp_state" where
  "msvc_shims s =
     (if is_defined (macros s) ''LABSOUND_COMPILER_VISUAL_STUDIO''
      then pp_include ''cmath''
             (pp_include ''math.h''
               (pp_define ''_USE_MATH_DEFINES'' Empty (pp_include ''stdint.h'' s)))
      else s)"

text \<open>Lines 39 to 41.\<close>

definition neon :: "pp_state \<Rightarrow> pp_state" where
  "neon s =
     (if is_defined (macros s) ''__ARM_NEON__'' then pp_define ''ARM_NEON_INTRINSICS'' (Num 1) s
      else s)"

text \<open>Lines 43 to 46 (the second include of the group is commented out in the source).\<close>

definition posix_math :: "pp_state \<Rightarrow> pp_state" where
  "posix_math s =
     (if is_defined (macros s) ''LABSOUND_PLATFORM_OSX''
         \<or> is_defined (macros s) ''LABSOUND_PLATFORM_LINUX''
      then pp_include ''math.h'' s
      else s)"

text \<open>Lines 48 to 50.\<close>

definition fft_linux :: "pp_state \<Rightarrow> pp_state" where
  "fft_linux s =
     (if is_defined (macros s) ''LABSOUND_PLATFORM_LINUX''
      then pp_define ''WEBAUDIO_KISSFFT'' (Num 1) s
      else s)"

text \<open>Lines 52 to 54.\<close>

definition fft_osx :: "pp_state \<Rightarrow> pp_state" where
  "fft_osx s =
     (if is_defined (macros s) ''LABSOUND_PLATFORM_OSX''
      then pp_define ''WEBAUDIO_KISSFFT'' (Num 1) s
      else s)"

text \<open>
  The whole header. Lines 2 and 3 are the include guard: with \<^verbatim>\<open>labsound_macros_h\<close>
  already defined nothing below it is processed.
\<close>

definition resolve_state :: "pp_state \<Rightarrow> pp_error + pp_state" where
  "resolve_state s0 =
     (if is_defined (macros s0) ''labsound_macros_h'' then Inr s0
      else
        (case simd (compiler_id (word_width (os_family (pp_define ''labsound_macros_h'' Empty s0)))) of
           Inl e \<Rightarrow> Inl e
         | Inr s \<Rightarrow> Inr (fft_osx (fft_linux (posix_math (neon (msvc_shims s)))))))"

definition resolve :: "macro_table \<Rightarrow> pp_error + pp_state" where
  "resolve env = resolve_state (initial env)"

section \<open>The symbols of the header\<close>

text \<open>
  The output flags, by the names the source gives them, in the order of the file: the
  operating system family, the word width, the compiler identity, SSE2, NEON and the FFT
  backend.
\<close>

definition output_flags :: "string list" where
  "output_flags =
     [''LABSOUND_PLATFORM_LINUX'', ''LABSOUND_PLATFORM_WINDOWS'', ''LABSOUND_PLATFORM_OSX'',
      ''LABSOUND_ARCH_32'', ''LABSOUND_ARCH_64'',
      ''LABSOUND_COMPILER_CLANG'', ''LABSOUND_COMPILER_GCC'', ''LABSOUND_COMPILER_VISUAL_STUDIO'',
      ''__SSE2__'', ''ARM_NEON_INTRINSICS'', ''WEBAUDIO_KISSFFT'']"

text \<open>Every name that some \<^verbatim>\<open>#define\<close> of the header defines.\<close>

definition header_defines :: "string list" where
  "header_defines =
     ''labsound_macros_h'' # ''__MACOSX_CORE__'' # ''_USE_MATH_DEFINES'' # output_flags"

text \<open>Every other name that some \<^verbatim>\<open>#if\<close> of the header tests.\<close>

definition input_symbols :: "string list" where
  "input_symbols =
     [''__linux'', ''__unix'', ''__posix'', ''__LINUX__'', ''__linux__'',
      ''_WIN64'', ''_WIN32'', ''__CYGWIN32__'', ''__MINGW32__'',
      ''MACOSX'', ''__DARWIN__'', ''__APPLE__'',
      ''WIN_32'', ''__i386__'', ''i386'', ''__x86__'',
      ''__amd64'', ''__amd64__'', ''__x86_64'', ''__x86_64__'', ''_M_X64'', ''__ia64__'',
      ''_M_IA64'',
      ''__clang__'', ''__GNUC__'', ''_MSC_VER'',
      ''_M_IX86_FP'', ''_M_AMD64'',
      ''__ARM_NEON__'']"

text \<open>
  The macro table a toolchain hands to the header when the header is included for the first
  time: none of the names that only this header introduces is defined yet. \<^verbatim>\<open>__SSE2__\<close>
  is left free, because it is not the header's own name: GCC and Clang predefine it
  themselves whenever they generate SSE2 code.
\<close>

definition toolchain_env :: "macro_table \<Rightarrow> bool" where
  "toolchain_env env = list_all (\<lambda>n. n = ''__SSE2__'' \<or> env n = None) header_defines"

text \<open>
  The same, with \<^verbatim>\<open>_USE_MATH_DEFINES\<close> left free as well: it is the switch of
  Microsoft's C runtime for the math constants, not a name of this header, and a build may
  pass it on the command line.
\<close>

definition build_env :: "macro_table \<Rightarrow> bool" where
  "build_env env =
     list_all (\<lambda>n. n = ''__SSE2__'' \<or> n = ''_USE_MATH_DEFINES'' \<or> env n = None) header_defines"

text \<open>
  The two macros that line 28 uses as operands expand to an expression (or are undefined).
\<close>

definition operands_wellformed :: "macro_table \<Rightarrow> bool" where
  "operands_wellformed m = (m ''_M_IX86_FP'' \<noteq> Some Empty \<and> m ''_M_AMD64'' \<noteq> Some Empty)"

text \<open>
  The condition for SSE2 in the words of the specification: \<^verbatim>\<open>_M_IX86_FP\<close> is present
  with a value of at least 2, or \<^verbatim>\<open>_M_AMD64\<close> is present with a non-zero value, or
  \<^verbatim>\<open>_M_X64\<close> is defined. It is compared with \<open>sse2_condition\<close> below.
\<close>

definition sse2_spec :: "macro_table \<Rightarrow> bool" where
  "sse2_spec m =
     ((case m ''_M_IX86_FP'' of Some (Num v) \<Rightarrow> 2 \<le> v | _ \<Rightarrow> False)
      \<or> (case m ''_M_AMD64'' of Some (Num v) \<Rightarrow> v \<noteq> 0 | _ \<Rightarrow> False)
      \<or> is_defined m ''_M_X64'')"

text \<open>Two macro tables that give every tested input symbol the same replacement.\<close>

definition same_inputs :: "macro_table \<Rightarrow> macro_table \<Rightarrow> bool" where
  "same_inputs m m' = list_all (\<lambda>n. m n = m' n) input_symbols"

text \<open>
  Two states that cannot be told apart through the symbols the header tests or defines, the
  headers it included and the diagnostics it caused.
\<close>

definition agree :: "pp_state \<Rightarrow> pp_state \<Rightarrow> bool" where
  "agree s t =
     (list_all (\<lambda>n. macros s n = macros t n) (input_symbols @ header_defines)
      \<and> included s = included t \<and> diags s = diags t)"

text \<open>The block of lines 32 to 37 has taken effect: its three headers were included and
  its macro is defined.\<close>

definition msvc_shims_active :: "pp_state \<Rightarrow> bool" where
  "msvc_shims_active s =
     (''stdint.h'' \<in> set (included s) \<and> is_defined (macros s) ''_USE_MATH_DEFINES''
      \<and> ''math.h'' \<in> set (included s) \<and> ''cmath'' \<in> set (included s))"

text \<open>What code after the header observes: whether a name is defined, and which headers
  were included; an error when translation failed inside the header.\<close>

definition defined_after :: "macro_table \<Rightarrow> string \<Rightarrow> pp_error + bool" where
  "defined_after env n =
     (case resolve env of Inl e \<Rightarrow> Inl e | Inr s \<Rightarrow> Inr (is_defined (macros s) n))"

definition included_after :: "macro_table \<Rightarrow> pp_error + string list" where
  "included_after env = (case resolve env of Inl e \<Rightarrow> Inl e | Inr s \<Rightarrow> Inr (included s))"

section \<open>Each directive group on its own\<close>

lemma input_not_defined:
  "n \<in> set header_defines \<Longrightarrow> k \<in> set input_symbols \<Longrightarrow> n \<noteq> k"
  by (auto simp add: header_defines_def output_flags_def input_symbols_def)

lemma same_inputs_lookup: "same_inputs m m' \<Longrightarrow> k \<in> set input_symbols \<Longrightarrow> m k = m' k"
  by (simp add: same_inputs_def list_all_iff)

lemma linux_like_cong: "same_inputs m m' \<Longrightarrow> linux_like m = linux_like m'"
  by (simp add: same_inputs_def input_symbols_def linux_like_def is_defined_def)

lemma windows_like_cong: "same_inputs m m' \<Longrightarrow> windows_like m = windows_like m'"
  by (simp add: same_inputs_def input_symbols_def windows_like_def is_defined_def)

lemma macos_like_cong: "same_inputs m m' \<Longrightarrow> macos_like m = macos_like m'"
  by (simp add: same_inputs_def input_symbols_def macos_like_def is_defined_def)

lemma arch32_like_cong: "same_inputs m m' \<Longrightarrow> arch32_like m = arch32_like m'"
  by (simp add: same_inputs_def input_symbols_def arch32_like_def is_defined_def)

lemma arch64_like_cong: "same_inputs m m' \<Longrightarrow> arch64_like m = arch64_like m'"
  by (simp add: same_inputs_def input_symbols_def arch64_like_def is_defined_def)

lemma sse2_condition_cong:
  assumes "same_inputs m m'"
  shows "sse2_condition m = sse2_condition m'"
proof -
  have "m ''_M_IX86_FP'' = m' ''_M_IX86_FP''" "m ''_M_AMD64'' = m' ''_M_AMD64''"
    "m ''_M_X64'' = m' ''_M_X64''"
    using assms by (simp_all add: same_inputs_def input_symbols_def)
  then show ?thesis
    by (simp only: sse2_condition_def pp_operand_def is_defined_def)
qed

lemma level_two: "((v::int) \<noteq> 0 \<and> 2 \<le> v) = (2 \<le> v)"
  by arith

lemma sse2_condition_ok: "operands_wellformed m \<Longrightarrow> sse2_condition m = Inr (sse2_spec m)"
  by (simp add: operands_wellformed_def sse2_condition_def sse2_spec_def pp_operand_def level_two
      split: option.splits repl.splits)

lemma sse2_condition_bad:
  "\<not> operands_wellformed m \<Longrightarrow> sse2_condition m = Inl (BadIfExpression ''_M_IX86_FP'')
     \<or> sse2_condition m = Inl (BadIfExpression ''_M_AMD64'')"
  by (auto simp add: operands_wellformed_def sse2_condition_def pp_operand_def
      split: option.splits repl.splits)

lemma sse2_condition_Inr: "sse2_condition m = Inr c \<Longrightarrow> operands_wellformed m \<and> c = sse2_spec m"
  using sse2_condition_ok [of m] sse2_condition_bad [of m] by (cases "operands_wellformed m") auto

lemma same_inputs_trans: "same_inputs a b \<Longrightarrow> same_inputs b c \<Longrightarrow> same_inputs a c"
  by (simp add: same_inputs_def list_all_iff)

lemma macros_pp_define: "macros (pp_define n r s) = (macros s)(n \<mapsto> r)"
  by (simp add: pp_define_def)

lemma included_pp_define: "included (pp_define n r s) = included s"
  by (simp add: pp_define_def)

lemma macros_pp_include: "macros (pp_include h s) = macros s"
  by (simp add: pp_include_def)

lemma included_pp_include: "included (pp_include h s) = included s @ [h]"
  by (simp add: pp_include_def)

lemma diags_pp_include: "diags (pp_include h s) = diags s"
  by (simp add: pp_include_def)

lemma macros_initial: "macros (initial env) = env"
  by (simp add: initial_def)

lemma included_initial: "included (initial env) = []"
  by (simp add: initial_def)

lemma diags_initial: "diags (initial env) = []"
  by (simp add: initial_def)

lemmas pp_simps = macros_initial included_initial diags_initial macros_pp_define
  included_pp_define macros_pp_include included_pp_include diags_pp_include

lemma os_family_macros:
  "macros (os_family s) n =
     (if n = ''LABSOUND_PLATFORM_LINUX'' \<and> linux_like (macros s) then Some (Num 1)
      else if n = ''LABSOUND_PLATFORM_WINDOWS'' \<and> \<not> linux_like (macros s)
                \<and> windows_like (macros s) then Some (Num 1)
      else if (n = ''LABSOUND_PLATFORM_OSX'' \<or> n = ''__MACOSX_CORE__'')
                \<and> \<not> linux_like (macros s) \<and> \<not> windows_like (macros s)
                \<and> macos_like (macros s) then Some (Num 1)
      else macros s n)"
  by (simp add: os_family_def pp_simps)

lemma word_width_macros:
  "macros (word_width s) n =
     (if n = ''LABSOUND_ARCH_32'' \<and> arch32_like (macros s) then Some (Num 1)
      else if n = ''LABSOUND_ARCH_64'' \<and> \<not> arch32_like (macros s) \<and> arch64_like (macros s)
        then Some (Num 1)
      else macros s n)"
  by (simp add: word_width_def pp_simps)

lemma compiler_id_macros:
  "macros (compiler_id s) n =
     (if n = ''LABSOUND_COMPILER_CLANG'' \<and> is_defined (macros s) ''__clang__'' then Some (Num 1)
      else if n = ''LABSOUND_COMPILER_GCC'' \<and> \<not> is_defined (macros s) ''__clang__''
                \<and> is_defined (macros s) ''__GNUC__'' then Some (Num 1)
      else if n = ''LABSOUND_COMPILER_VISUAL_STUDIO'' \<and> \<not> is_defined (macros s) ''__clang__''
                \<and> \<not> is_defined (macros s) ''__GNUC__'' \<and> is_defined (macros s) ''_MSC_VER''
        then Some (Num 1)
      else macros s n)"
  by (simp add: compiler_id_def pp_simps)

lemma simd_macros:
  "simd s = Inr s' \<Longrightarrow>
   macros s' n = (if n = ''__SSE2__'' \<and> sse2_spec (macros s) then Some Empty else macros s n)"
  by (auto simp add: simd_def pp_simps split: sum.splits dest: sse2_condition_Inr)

lemma simd_included: "simd s = Inr s' \<Longrightarrow> included s' = included s"
  by (auto simp add: simd_def pp_simps split: sum.splits)

lemma simd_total: "operands_wellformed (macros s) \<Longrightarrow> \<exists>s'. simd s = Inr s'"
  by (simp add: simd_def sse2_condition_ok)

lemma msvc_shims_macros:
  "macros (msvc_shims s) n =
     (if n = ''_USE_MATH_DEFINES'' \<and> is_defined (macros s) ''LABSOUND_COMPILER_VISUAL_STUDIO''
      then Some Empty else macros s n)"
  by (simp add: msvc_shims_def pp_simps)

lemma neon_macros:
  "macros (neon s) n =
     (if n = ''ARM_NEON_INTRINSICS'' \<and> is_defined (macros s) ''__ARM_NEON__''
      then Some (Num 1) else macros s n)"
  by (simp add: neon_def pp_simps)

lemma posix_math_macros: "macros (posix_math s) = macros s"
  by (simp add: posix_math_def pp_simps)

lemma fft_linux_macros:
  "macros (fft_linux s) n =
     (if n = ''WEBAUDIO_KISSFFT'' \<and> is_defined (macros s) ''LABSOUND_PLATFORM_LINUX''
      then Some (Num 1) else macros s n)"
  by (simp add: fft_linux_def pp_simps)

lemma fft_osx_macros:
  "macros (fft_osx s) n =
     (if n = ''WEBAUDIO_KISSFFT'' \<and> is_defined (macros s) ''LABSOUND_PLATFORM_OSX''
      then Some (Num 1) else macros s n)"
  by (simp add: fft_osx_def pp_simps)


lemma input_not_header: "k \<in> set input_symbols \<Longrightarrow> k \<notin> set header_defines"
  using input_not_defined by blast

lemma same_inputs_I: "(\<And>k. k \<notin> set header_defines \<Longrightarrow> m k = m' k) \<Longrightarrow> same_inputs m m'"
  by (simp add: same_inputs_def list_all_iff input_not_header)

lemma same_inputs_guard: "same_inputs (macros (pp_define ''labsound_macros_h'' Empty s)) (macros s)"
  by (rule same_inputs_I) (simp add: pp_simps header_defines_def output_flags_def)

lemma same_inputs_os_family: "same_inputs (macros (os_family s)) (macros s)"
  by (rule same_inputs_I) (simp add: os_family_macros header_defines_def output_flags_def)

lemma same_inputs_word_width: "same_inputs (macros (word_width s)) (macros s)"
  by (rule same_inputs_I) (simp add: word_width_macros header_defines_def output_flags_def)

lemma same_inputs_compiler_id: "same_inputs (macros (compiler_id s)) (macros s)"
  by (rule same_inputs_I) (simp add: compiler_id_macros header_defines_def output_flags_def)

lemma is_defined_cong:
  "same_inputs m m' \<Longrightarrow> k \<in> set input_symbols \<Longrightarrow> is_defined m k = is_defined m' k"
  by (simp add: is_defined_def same_inputs_lookup)

lemma sse2_spec_cong: "same_inputs m m' \<Longrightarrow> sse2_spec m = sse2_spec m'"
  by (simp add: same_inputs_def input_symbols_def sse2_spec_def is_defined_def)

lemma operands_wellformed_cong: "same_inputs m m' \<Longrightarrow> operands_wellformed m = operands_wellformed m'"
  by (simp add: same_inputs_def input_symbols_def operands_wellformed_def)

text \<open>The state in which line 28 is reached.\<close>

lemma same_inputs_front:
  "same_inputs
     (macros (compiler_id (word_width (os_family (pp_define ''labsound_macros_h'' Empty (initial env))))))
     env"
proof -
  have "same_inputs (macros (pp_define ''labsound_macros_h'' Empty (initial env))) env"
    using same_inputs_guard [of "initial env"] by (simp add: macros_initial)
  then show ?thesis
    by (blast intro: same_inputs_trans same_inputs_compiler_id same_inputs_word_width
        same_inputs_os_family)
qed

lemma front_macros:
  "macros (compiler_id (word_width (os_family (pp_define ''labsound_macros_h'' Empty (initial env))))) n =
     (if n = ''LABSOUND_COMPILER_CLANG'' \<and> is_defined env ''__clang__'' then Some (Num 1)
      else if n = ''LABSOUND_COMPILER_GCC'' \<and> \<not> is_defined env ''__clang__''
                \<and> is_defined env ''__GNUC__'' then Some (Num 1)
      else if n = ''LABSOUND_COMPILER_VISUAL_STUDIO'' \<and> \<not> is_defined env ''__clang__''
                \<and> \<not> is_defined env ''__GNUC__'' \<and> is_defined env ''_MSC_VER''
        then Some (Num 1)
      else if n = ''LABSOUND_ARCH_32'' \<and> arch32_like env then Some (Num 1)
      else if n = ''LABSOUND_ARCH_64'' \<and> \<not> arch32_like env \<and> arch64_like env
        then Some (Num 1)
      else if n = ''LABSOUND_PLATFORM_LINUX'' \<and> linux_like env then Some (Num 1)
      else if n = ''LABSOUND_PLATFORM_WINDOWS'' \<and> \<not> linux_like env \<and> windows_like env
        then Some (Num 1)
      else if (n = ''LABSOUND_PLATFORM_OSX'' \<or> n = ''__MACOSX_CORE__'')
                \<and> \<not> linux_like env \<and> \<not> windows_like env \<and> macos_like env
        then Some (Num 1)
      else if n = ''labsound_macros_h'' then Some Empty
      else env n)"
proof -
  let ?s1 = "pp_define ''labsound_macros_h'' Empty (initial env)"
  have s1: "same_inputs (macros ?s1) env"
    using same_inputs_guard [of "initial env"] by (simp add: macros_initial)
  have s2: "same_inputs (macros (os_family ?s1)) env"
    using same_inputs_os_family s1 by (rule same_inputs_trans)
  have s3: "same_inputs (macros (word_width (os_family ?s1))) env"
    using same_inputs_word_width s2 by (rule same_inputs_trans)
  have os: "linux_like (macros ?s1) = linux_like env" "windows_like (macros ?s1) = windows_like env"
    "macos_like (macros ?s1) = macos_like env"
    using s1 by (simp_all add: linux_like_cong windows_like_cong macos_like_cong)
  have ar: "arch32_like (macros (os_family ?s1)) = arch32_like env"
    "arch64_like (macros (os_family ?s1)) = arch64_like env"
    using s2 by (simp_all add: arch32_like_cong arch64_like_cong)
  have co: "is_defined (macros (word_width (os_family ?s1))) ''__clang__'' = is_defined env ''__clang__''"
    "is_defined (macros (word_width (os_family ?s1))) ''__GNUC__'' = is_defined env ''__GNUC__''"
    "is_defined (macros (word_width (os_family ?s1))) ''_MSC_VER'' = is_defined env ''_MSC_VER''"
    using s3 by (simp_all add: is_defined_cong input_symbols_def)
  have base: "macros ?s1 k = (if k = ''labsound_macros_h'' then Some Empty else env k)" for k
    by (simp add: pp_simps)
  show ?thesis
    by (simp add: compiler_id_macros word_width_macros os_family_macros os ar co base)
qed


lemma included_os_family: "included (os_family s) = included s"
  by (simp add: os_family_def pp_simps)

lemma included_word_width: "included (word_width s) = included s"
  by (simp add: word_width_def pp_simps)

lemma included_compiler_id: "included (compiler_id s) = included s"
  by (simp add: compiler_id_def pp_simps)

lemma included_msvc_shims:
  "included (msvc_shims s) =
     included s @ (if is_defined (macros s) ''LABSOUND_COMPILER_VISUAL_STUDIO''
                   then [''stdint.h'', ''math.h'', ''cmath''] else [])"
  by (simp add: msvc_shims_def pp_simps)

lemma included_neon: "included (neon s) = included s"
  by (simp add: neon_def pp_simps)

lemma included_posix_math:
  "included (posix_math s) =
     included s @ (if is_defined (macros s) ''LABSOUND_PLATFORM_OSX''
                      \<or> is_defined (macros s) ''LABSOUND_PLATFORM_LINUX''
                   then [''math.h''] else [])"
  by (simp add: posix_math_def pp_simps)

lemma included_fft_linux: "included (fft_linux s) = included s"
  by (simp add: fft_linux_def pp_simps)

lemma included_fft_osx: "included (fft_osx s) = included s"
  by (simp add: fft_osx_def pp_simps)

lemma toolchain_envD:
  assumes "toolchain_env env"
  shows "env ''labsound_macros_h'' = None"
    and "env ''LABSOUND_PLATFORM_LINUX'' = None"
    and "env ''LABSOUND_PLATFORM_WINDOWS'' = None"
    and "env ''LABSOUND_PLATFORM_OSX'' = None"
    and "env ''__MACOSX_CORE__'' = None"
    and "env ''LABSOUND_ARCH_32'' = None"
    and "env ''LABSOUND_ARCH_64'' = None"
    and "env ''LABSOUND_COMPILER_CLANG'' = None"
    and "env ''LABSOUND_COMPILER_GCC'' = None"
    and "env ''LABSOUND_COMPILER_VISUAL_STUDIO'' = None"
    and "env ''_USE_MATH_DEFINES'' = None"
    and "env ''ARM_NEON_INTRINSICS'' = None"
    and "env ''WEBAUDIO_KISSFFT'' = None"
  using assms by (simp_all add: toolchain_env_def header_defines_def output_flags_def)

lemma resolved:
  assumes tc: "toolchain_env env" and ok: "operands_wellformed env"
  obtains s where "resolve env = Inr s"
    and "macros s ''LABSOUND_PLATFORM_LINUX'' = (if linux_like env then Some (Num 1) else None)"
    and "macros s ''LABSOUND_PLATFORM_WINDOWS'' =
           (if \<not> linux_like env \<and> windows_like env then Some (Num 1) else None)"
    and "macros s ''LABSOUND_PLATFORM_OSX'' =
           (if \<not> linux_like env \<and> \<not> windows_like env \<and> macos_like env
            then Some (Num 1) else None)"
    and "macros s ''__MACOSX_CORE__'' =
           (if \<not> linux_like env \<and> \<not> windows_like env \<and> macos_like env
            then Some (Num 1) else None)"
    and "macros s ''LABSOUND_ARCH_32'' = (if arch32_like env then Some (Num 1) else None)"
    and "macros s ''LABSOUND_ARCH_64'' =
           (if \<not> arch32_like env \<and> arch64_like env then Some (Num 1) else None)"
    and "macros s ''LABSOUND_COMPILER_CLANG'' =
           (if is_defined env ''__clang__'' then Some (Num 1) else None)"
    and "macros s ''LABSOUND_COMPILER_GCC'' =
           (if \<not> is_defined env ''__clang__'' \<and> is_defined env ''__GNUC__''
            then Some (Num 1) else None)"
    and "macros s ''LABSOUND_COMPILER_VISUAL_STUDIO'' =
           (if \<not> is_defined env ''__clang__'' \<and> \<not> is_defined env ''__GNUC__''
               \<and> is_defined env ''_MSC_VER''
            then Some (Num 1) else None)"
    and "macros s ''__SSE2__'' = (if sse2_spec env then Some Empty else env ''__SSE2__'')"
    and "macros s ''_USE_MATH_DEFINES'' =
           (if \<not> is_defined env ''__clang__'' \<and> \<not> is_defined env ''__GNUC__''
               \<and> is_defined env ''_MSC_VER''
            then Some Empty else None)"
    and "macros s ''ARM_NEON_INTRINSICS'' =
           (if is_defined env ''__ARM_NEON__'' then Some (Num 1) else None)"
    and "macros s ''WEBAUDIO_KISSFFT'' =
           (if linux_like env \<or> (\<not> windows_like env \<and> macos_like env)
            then Some (Num 1) else None)"
    and "included s =
           (if \<not> is_defined env ''__clang__'' \<and> \<not> is_defined env ''__GNUC__''
               \<and> is_defined env ''_MSC_VER''
            then [''stdint.h'', ''math.h'', ''cmath''] else [])
           @ (if linux_like env \<or> (\<not> windows_like env \<and> macos_like env)
              then [''math.h''] else [])"
proof -
  let ?s3 = "compiler_id (word_width (os_family (pp_define ''labsound_macros_h'' Empty (initial env))))"
  let ?tail = "\<lambda>s4. fft_osx (fft_linux (posix_math (neon (msvc_shims s4))))"
  note tcs = toolchain_envD [OF tc]
  have "operands_wellformed (macros ?s3)"
    using same_inputs_front [of env] ok by (simp add: operands_wellformed_cong)
  then obtain s4 where s4: "simd ?s3 = Inr s4"
    using simd_total by blast
  have r: "resolve env = Inr (?tail s4)"
    by (simp add: resolve_def resolve_state_def s4 macros_initial is_defined_def tcs)
  have sp: "sse2_spec (macros ?s3) = sse2_spec env"
    using same_inputs_front [of env] by (rule sse2_spec_cong)
  have m4: "macros s4 n =
      (if n = ''__SSE2__'' \<and> sse2_spec env then Some Empty else macros ?s3 n)" for n
    using simd_macros [OF s4, of n] by (simp only: sp)
  have i4: "included s4 = []"
    using simd_included [OF s4]
    by (simp add: included_compiler_id included_word_width included_os_family pp_simps)
  note rest = fft_osx_macros fft_linux_macros posix_math_macros neon_macros msvc_shims_macros
  note inc = included_fft_osx included_fft_linux included_posix_math included_neon
    included_msvc_shims
  show thesis
    by (rule that [OF r]) (simp_all add: rest inc m4 i4 front_macros is_defined_def tcs)
qed

lemma toolchain_env_build_env: "toolchain_env env \<Longrightarrow> build_env env"
  by (simp add: toolchain_env_def build_env_def header_defines_def output_flags_def)

lemma build_envD:
  assumes "build_env env"
  shows "env ''labsound_macros_h'' = None"
    and "env ''LABSOUND_PLATFORM_LINUX'' = None"
    and "env ''LABSOUND_PLATFORM_WINDOWS'' = None"
    and "env ''LABSOUND_PLATFORM_OSX'' = None"
    and "env ''__MACOSX_CORE__'' = None"
    and "env ''LABSOUND_ARCH_32'' = None"
    and "env ''LABSOUND_ARCH_64'' = None"
    and "env ''LABSOUND_COMPILER_CLANG'' = None"
    and "env ''LABSOUND_COMPILER_GCC'' = None"
    and "env ''LABSOUND_COMPILER_VISUAL_STUDIO'' = None"
    and "env ''ARM_NEON_INTRINSICS'' = None"
    and "env ''WEBAUDIO_KISSFFT'' = None"
  using assms by (simp_all add: build_env_def header_defines_def output_flags_def)

text \<open>
  What the run leaves of the compiler flag for Visual Studio, of the two platform flags that
  lines 43 to 46 test, of \<^verbatim>\<open>_USE_MATH_DEFINES\<close> and of the include directives, when
  \<^verbatim>\<open>_USE_MATH_DEFINES\<close> may have been predefined.
\<close>

lemma resolved_shims:
  assumes be: "build_env env" and ok: "operands_wellformed env"
  obtains s where "resolve env = Inr s"
    and "macros s ''LABSOUND_PLATFORM_LINUX'' = (if linux_like env then Some (Num 1) else None)"
    and "macros s ''LABSOUND_PLATFORM_OSX'' =
           (if \<not> linux_like env \<and> \<not> windows_like env \<and> macos_like env
            then Some (Num 1) else None)"
    and "macros s ''LABSOUND_COMPILER_VISUAL_STUDIO'' =
           (if \<not> is_defined env ''__clang__'' \<and> \<not> is_defined env ''__GNUC__''
               \<and> is_defined env ''_MSC_VER''
            then Some (Num 1) else None)"
    and "macros s ''_USE_MATH_DEFINES'' =
           (if \<not> is_defined env ''__clang__'' \<and> \<not> is_defined env ''__GNUC__''
               \<and> is_defined env ''_MSC_VER''
            then Some Empty else env ''_USE_MATH_DEFINES'')"
    and "included s =
           (if \<not> is_defined env ''__clang__'' \<and> \<not> is_defined env ''__GNUC__''
               \<and> is_defined env ''_MSC_VER''
            then [''stdint.h'', ''math.h'', ''cmath''] else [])
           @ (if linux_like env \<or> (\<not> windows_like env \<and> macos_like env)
              then [''math.h''] else [])"
proof -
  let ?s3 = "compiler_id (word_width (os_family (pp_define ''labsound_macros_h'' Empty (initial env))))"
  let ?tail = "\<lambda>s4. fft_osx (fft_linux (posix_math (neon (msvc_shims s4))))"
  note bes = build_envD [OF be]
  have "operands_wellformed (macros ?s3)"
    using same_inputs_front [of env] ok by (simp add: operands_wellformed_cong)
  then obtain s4 where s4: "simd ?s3 = Inr s4"
    using simd_total by blast
  have r: "resolve env = Inr (?tail s4)"
    by (simp add: resolve_def resolve_state_def s4 macros_initial is_defined_def bes)
  have sp: "sse2_spec (macros ?s3) = sse2_spec env"
    using same_inputs_front [of env] by (rule sse2_spec_cong)
  have m4: "macros s4 n =
      (if n = ''__SSE2__'' \<and> sse2_spec env then Some Empty else macros ?s3 n)" for n
    using simd_macros [OF s4, of n] by (simp only: sp)
  have i4: "included s4 = []"
    using simd_included [OF s4]
    by (simp add: included_compiler_id included_word_width included_os_family pp_simps)
  note rest = fft_osx_macros fft_linux_macros posix_math_macros neon_macros msvc_shims_macros
  note inc = included_fft_osx included_fft_linux included_posix_math included_neon
    included_msvc_shims
  show thesis
    by (rule that [OF r]) (simp_all add: rest inc m4 i4 front_macros is_defined_def bes)
qed

text \<open>
  When the guard is not yet defined and an operand of line 28 has an empty replacement list,
  translation fails at that line: the failure branch of the model is reachable.
\<close>

lemma resolve_ill_formed:
  assumes "\<not> is_defined env ''labsound_macros_h''" and "\<not> operands_wellformed env"
  shows "resolve env = Inl (BadIfExpression ''_M_IX86_FP'')
     \<or> resolve env = Inl (BadIfExpression ''_M_AMD64'')"
proof -
  let ?s3 = "compiler_id (word_width (os_family (pp_define ''labsound_macros_h'' Empty (initial env))))"
  have "sse2_condition (macros ?s3) = sse2_condition env"
    using same_inputs_front [of env] by (rule sse2_condition_cong)
  then have "simd ?s3 = Inl (BadIfExpression ''_M_IX86_FP'')
     \<or> simd ?s3 = Inl (BadIfExpression ''_M_AMD64'')"
    using sse2_condition_bad [OF assms(2)] by (auto simp add: simd_def)
  then show ?thesis
    using assms(1) by (auto simp add: resolve_def resolve_state_def macros_initial)
qed

text \<open>
  After a successful run the include guard is defined, so a second inclusion of the header
  leaves the macro table as it is.
\<close>

lemma guard_kept:
  assumes "resolve env = Inr s"
  shows "is_defined (macros s) ''labsound_macros_h''"
proof (cases "is_defined env ''labsound_macros_h''")
  case True
  then show ?thesis
    using assms by (auto simp add: resolve_def resolve_state_def macros_initial)
next
  case False
  let ?s3 = "compiler_id (word_width (os_family (pp_define ''labsound_macros_h'' Empty (initial env))))"
  from False assms obtain s4 where s4: "simd ?s3 = Inr s4"
    and s: "s = fft_osx (fft_linux (posix_math (neon (msvc_shims s4))))"
    by (auto simp add: resolve_def resolve_state_def macros_initial split: sum.splits)
  have "macros s4 ''labsound_macros_h'' = Some Empty"
    using simd_macros [OF s4, of "''labsound_macros_h''"] by (simp add: front_macros)
  then show ?thesis
    by (simp add: s is_defined_def fft_osx_macros fft_linux_macros posix_math_macros neon_macros
        msvc_shims_macros)
qed

lemma second_inclusion:
  assumes "resolve env = Inr s"
  shows "resolve (macros s) = Inr (initial (macros s))"
  using guard_kept [OF assms] by (simp add: resolve_def resolve_state_def macros_initial)

section \<open>Two runs on tables that agree on the header's symbols\<close>

lemma agree_same_inputs: "agree s t \<Longrightarrow> same_inputs (macros s) (macros t)"
  by (simp add: agree_def same_inputs_def)

lemma agree_header: "agree s t \<Longrightarrow> n \<in> set header_defines \<Longrightarrow> macros s n = macros t n"
  by (simp add: agree_def list_all_iff)

lemma agree_input: "agree s t \<Longrightarrow> n \<in> set input_symbols \<Longrightarrow> macros s n = macros t n"
  by (simp add: agree_def list_all_iff)

lemma agree_pp_define:
  "agree s t \<Longrightarrow> n \<in> set header_defines \<Longrightarrow> agree (pp_define n r s) (pp_define n r t)"
  by (simp add: agree_def pp_define_def list_all_iff)

lemma agree_pp_include: "agree s t \<Longrightarrow> agree (pp_include h s) (pp_include h t)"
  by (simp add: agree_def pp_include_def)

lemma header_defines_mem:
  "''labsound_macros_h'' \<in> set header_defines"
  "''LABSOUND_PLATFORM_LINUX'' \<in> set header_defines"
  "''LABSOUND_PLATFORM_WINDOWS'' \<in> set header_defines"
  "''LABSOUND_PLATFORM_OSX'' \<in> set header_defines"
  "''__MACOSX_CORE__'' \<in> set header_defines"
  "''LABSOUND_ARCH_32'' \<in> set header_defines"
  "''LABSOUND_ARCH_64'' \<in> set header_defines"
  "''LABSOUND_COMPILER_CLANG'' \<in> set header_defines"
  "''LABSOUND_COMPILER_GCC'' \<in> set header_defines"
  "''LABSOUND_COMPILER_VISUAL_STUDIO'' \<in> set header_defines"
  "''__SSE2__'' \<in> set header_defines"
  "''_USE_MATH_DEFINES'' \<in> set header_defines"
  "''ARM_NEON_INTRINSICS'' \<in> set header_defines"
  "''WEBAUDIO_KISSFFT'' \<in> set header_defines"
  by (simp_all add: header_defines_def output_flags_def)

lemma agree_os_family:
  assumes "agree s t"
  shows "agree (os_family s) (os_family t)"
proof -
  have "same_inputs (macros s) (macros t)"
    using assms by (rule agree_same_inputs)
  then have "linux_like (macros s) = linux_like (macros t)"
    "windows_like (macros s) = windows_like (macros t)"
    "macos_like (macros s) = macos_like (macros t)"
    by (simp_all add: linux_like_cong windows_like_cong macos_like_cong)
  then show ?thesis
    using assms by (simp add: os_family_def agree_pp_define header_defines_mem)
qed

lemma agree_word_width:
  assumes "agree s t"
  shows "agree (word_width s) (word_width t)"
proof -
  have "same_inputs (macros s) (macros t)"
    using assms by (rule agree_same_inputs)
  then have "arch32_like (macros s) = arch32_like (macros t)"
    "arch64_like (macros s) = arch64_like (macros t)"
    by (simp_all add: arch32_like_cong arch64_like_cong)
  then show ?thesis
    using assms by (simp add: word_width_def agree_pp_define header_defines_mem)
qed

lemma agree_compiler_id:
  assumes "agree s t"
  shows "agree (compiler_id s) (compiler_id t)"
proof -
  have "macros s ''__clang__'' = macros t ''__clang__''"
    "macros s ''__GNUC__'' = macros t ''__GNUC__''"
    "macros s ''_MSC_VER'' = macros t ''_MSC_VER''"
    using assms by (simp_all add: agree_input input_symbols_def)
  then show ?thesis
    using assms by (simp add: compiler_id_def is_defined_def agree_pp_define header_defines_mem)
qed

lemma agree_simd:
  assumes "agree s t"
  shows "rel_sum (=) agree (simd s) (simd t)"
proof -
  have "sse2_condition (macros s) = sse2_condition (macros t)"
    using assms by (simp add: agree_same_inputs sse2_condition_cong)
  then show ?thesis
    using assms
    by (cases "sse2_condition (macros t)") (simp_all add: simd_def agree_pp_define header_defines_mem)
qed

lemma agree_msvc_shims:
  assumes "agree s t"
  shows "agree (msvc_shims s) (msvc_shims t)"
proof -
  have "macros s ''LABSOUND_COMPILER_VISUAL_STUDIO'' = macros t ''LABSOUND_COMPILER_VISUAL_STUDIO''"
    using assms by (simp add: agree_header header_defines_mem)
  then show ?thesis
    using assms
    by (simp add: msvc_shims_def is_defined_def agree_pp_define agree_pp_include header_defines_mem)
qed

lemma agree_neon:
  assumes "agree s t"
  shows "agree (neon s) (neon t)"
proof -
  have "macros s ''__ARM_NEON__'' = macros t ''__ARM_NEON__''"
    using assms by (simp add: agree_input input_symbols_def)
  then show ?thesis
    using assms by (simp add: neon_def is_defined_def agree_pp_define header_defines_mem)
qed

lemma agree_posix_math:
  assumes "agree s t"
  shows "agree (posix_math s) (posix_math t)"
proof -
  have "macros s ''LABSOUND_PLATFORM_OSX'' = macros t ''LABSOUND_PLATFORM_OSX''"
    "macros s ''LABSOUND_PLATFORM_LINUX'' = macros t ''LABSOUND_PLATFORM_LINUX''"
    using assms by (simp_all add: agree_header header_defines_mem)
  then show ?thesis
    using assms by (simp add: posix_math_def is_defined_def agree_pp_include)
qed

lemma agree_fft_linux:
  assumes "agree s t"
  shows "agree (fft_linux s) (fft_linux t)"
proof -
  have "macros s ''LABSOUND_PLATFORM_LINUX'' = macros t ''LABSOUND_PLATFORM_LINUX''"
    using assms by (simp add: agree_header header_defines_mem)
  then show ?thesis
    using assms by (simp add: fft_linux_def is_defined_def agree_pp_define header_defines_mem)
qed

lemma agree_fft_osx:
  assumes "agree s t"
  shows "agree (fft_osx s) (fft_osx t)"
proof -
  have "macros s ''LABSOUND_PLATFORM_OSX'' = macros t ''LABSOUND_PLATFORM_OSX''"
    using assms by (simp add: agree_header header_defines_mem)
  then show ?thesis
    using assms by (simp add: fft_osx_def is_defined_def agree_pp_define header_defines_mem)
qed

lemma agree_then:
  assumes "rel_sum (=) agree a b" and "\<And>u v. agree u v \<Longrightarrow> agree (g u) (g v)"
  shows "rel_sum (=) agree
           (case a of Inl e \<Rightarrow> Inl e | Inr u \<Rightarrow> Inr (g u))
           (case b of Inl e \<Rightarrow> Inl e | Inr u \<Rightarrow> Inr (g u))"
  using assms by (cases a; cases b) simp_all

lemma agree_resolve_state:
  assumes "agree s t"
  shows "rel_sum (=) agree (resolve_state s) (resolve_state t)"
proof -
  have g: "macros s ''labsound_macros_h'' = macros t ''labsound_macros_h''"
    using assms by (simp add: agree_header header_defines_mem)
  let ?f = "\<lambda>u. compiler_id (word_width (os_family (pp_define ''labsound_macros_h'' Empty u)))"
  let ?g = "\<lambda>u. fft_osx (fft_linux (posix_math (neon (msvc_shims u))))"
  have "agree (?f s) (?f t)"
    using assms
    by (intro agree_compiler_id agree_word_width agree_os_family agree_pp_define)
      (simp_all add: header_defines_mem)
  then have "rel_sum (=) agree (simd (?f s)) (simd (?f t))"
    by (rule agree_simd)
  moreover have "agree (?g u) (?g v)" if "agree u v" for u v
    using that
    by (intro agree_fft_osx agree_fft_linux agree_posix_math agree_neon agree_msvc_shims)
  ultimately have "rel_sum (=) agree
      (case simd (?f s) of Inl e \<Rightarrow> Inl e | Inr u \<Rightarrow> Inr (?g u))
      (case simd (?f t) of Inl e \<Rightarrow> Inl e | Inr u \<Rightarrow> Inr (?g u))"
    by (rule agree_then)
  then show ?thesis
    using assms g by (simp add: resolve_state_def is_defined_def)
qed

section \<open>The claims\<close>

text \<open>
  The claims are stated for the macro table of a first inclusion (\<open>toolchain_env\<close>) in
  which the operands of line 28 are expressions (\<open>operands_wellformed\<close>); then the header
  is translated to the end and leaves a state \<open>s\<close>. A flag is set when its name is defined in
  the macro table of \<open>s\<close>.
\<close>

text \<open>
  C1. \<^verbatim>\<open>WEBAUDIO_KISSFFT\<close> is set exactly when the operating system family resolved
  to Linux-like or to macOS-like, that is when \<^verbatim>\<open>LABSOUND_PLATFORM_LINUX\<close> or
  \<^verbatim>\<open>LABSOUND_PLATFORM_OSX\<close> is set. When the family resolved to Windows-like, or
  to none of the three, the flag stays unset.
\<close>

theorem fft_flag_iff_family:
  assumes "toolchain_env env" and "operands_wellformed env"
  shows "\<exists>s. resolve env = Inr s
     \<and> is_defined (macros s) ''WEBAUDIO_KISSFFT''
         = (is_defined (macros s) ''LABSOUND_PLATFORM_LINUX''
            \<or> is_defined (macros s) ''LABSOUND_PLATFORM_OSX'')
     \<and> is_defined (macros s) ''WEBAUDIO_KISSFFT''
         = (linux_like env \<or> (\<not> windows_like env \<and> macos_like env))
     \<and> (is_defined (macros s) ''LABSOUND_PLATFORM_WINDOWS''
          \<or> (\<not> is_defined (macros s) ''LABSOUND_PLATFORM_LINUX''
              \<and> \<not> is_defined (macros s) ''LABSOUND_PLATFORM_WINDOWS''
              \<and> \<not> is_defined (macros s) ''LABSOUND_PLATFORM_OSX'')
          \<longrightarrow> \<not> is_defined (macros s) ''WEBAUDIO_KISSFFT'')"
proof -
  from resolved [OF assms] obtain s where "resolve env = Inr s"
    and "macros s ''LABSOUND_PLATFORM_LINUX'' = (if linux_like env then Some (Num 1) else None)"
    and "macros s ''LABSOUND_PLATFORM_WINDOWS'' =
           (if \<not> linux_like env \<and> windows_like env then Some (Num 1) else None)"
    and "macros s ''LABSOUND_PLATFORM_OSX'' =
           (if \<not> linux_like env \<and> \<not> windows_like env \<and> macos_like env
            then Some (Num 1) else None)"
    and "macros s ''WEBAUDIO_KISSFFT'' =
           (if linux_like env \<or> (\<not> windows_like env \<and> macos_like env)
            then Some (Num 1) else None)"
    by blast
  then show ?thesis
    by (auto simp add: is_defined_def)
qed

theorem fft_flag_iff_family_witness:
  "toolchain_env [''_WIN32'' \<mapsto> Num 1, ''_MSC_VER'' \<mapsto> Num 1900]
   \<and> operands_wellformed [''_WIN32'' \<mapsto> Num 1, ''_MSC_VER'' \<mapsto> Num 1900]
   \<and> (\<exists>s. resolve [''_WIN32'' \<mapsto> Num 1, ''_MSC_VER'' \<mapsto> Num 1900] = Inr s
        \<and> is_defined (macros s) ''LABSOUND_PLATFORM_WINDOWS''
        \<and> \<not> is_defined (macros s) ''WEBAUDIO_KISSFFT'')"
proof -
  let ?E = "[''_WIN32'' \<mapsto> Num 1, ''_MSC_VER'' \<mapsto> Num 1900]"
  have tc: "toolchain_env ?E"
    by (simp add: toolchain_env_def header_defines_def output_flags_def)
  have ok: "operands_wellformed ?E"
    by (simp add: operands_wellformed_def)
  have w: "\<not> linux_like ?E \<and> windows_like ?E"
    by (simp add: linux_like_def windows_like_def is_defined_def)
  from resolved [OF tc ok] obtain s where r: "resolve ?E = Inr s"
    and "macros s ''LABSOUND_PLATFORM_WINDOWS'' =
           (if \<not> linux_like ?E \<and> windows_like ?E then Some (Num 1) else None)"
    by blast
  with w have win: "is_defined (macros s) ''LABSOUND_PLATFORM_WINDOWS''"
    by (simp add: is_defined_def)
  from fft_flag_iff_family [OF tc ok] r win
  have "\<not> is_defined (macros s) ''WEBAUDIO_KISSFFT''"
    by auto
  with r win tc ok show ?thesis
    by blast
qed

text \<open>
  C2. The operating system family is resolved by the first group that matches, in the order
  Linux-like, Windows-like, macOS-like: \<^verbatim>\<open>LABSOUND_PLATFORM_LINUX\<close> is set exactly
  when a Linux-like identifier is present, \<^verbatim>\<open>LABSOUND_PLATFORM_WINDOWS\<close> exactly when
  none is and a Windows-like identifier is, \<^verbatim>\<open>LABSOUND_PLATFORM_OSX\<close> exactly when
  neither is and a macOS-like identifier is. Hence an input with a Linux-like identifier and
  a Windows-like or macOS-like one sets \<^verbatim>\<open>LABSOUND_PLATFORM_LINUX\<close> and leaves the
  other two unset.
\<close>

theorem os_family_first_match:
  assumes "toolchain_env env" and "operands_wellformed env"
  shows "\<exists>s. resolve env = Inr s
     \<and> is_defined (macros s) ''LABSOUND_PLATFORM_LINUX'' = linux_like env
     \<and> is_defined (macros s) ''LABSOUND_PLATFORM_WINDOWS''
         = (\<not> linux_like env \<and> windows_like env)
     \<and> is_defined (macros s) ''LABSOUND_PLATFORM_OSX''
         = (\<not> linux_like env \<and> \<not> windows_like env \<and> macos_like env)
     \<and> (linux_like env \<and> (windows_like env \<or> macos_like env) \<longrightarrow>
          is_defined (macros s) ''LABSOUND_PLATFORM_LINUX''
          \<and> \<not> is_defined (macros s) ''LABSOUND_PLATFORM_WINDOWS''
          \<and> \<not> is_defined (macros s) ''LABSOUND_PLATFORM_OSX'')"
proof -
  from resolved [OF assms] obtain s where "resolve env = Inr s"
    and "macros s ''LABSOUND_PLATFORM_LINUX'' = (if linux_like env then Some (Num 1) else None)"
    and "macros s ''LABSOUND_PLATFORM_WINDOWS'' =
           (if \<not> linux_like env \<and> windows_like env then Some (Num 1) else None)"
    and "macros s ''LABSOUND_PLATFORM_OSX'' =
           (if \<not> linux_like env \<and> \<not> windows_like env \<and> macos_like env
            then Some (Num 1) else None)"
    by blast
  then show ?thesis
    by (simp add: is_defined_def)
qed

theorem os_family_first_match_witness:
  "toolchain_env [''__linux__'' \<mapsto> Num 1, ''_WIN32'' \<mapsto> Num 1, ''__APPLE__'' \<mapsto> Num 1]
   \<and> operands_wellformed [''__linux__'' \<mapsto> Num 1, ''_WIN32'' \<mapsto> Num 1, ''__APPLE__'' \<mapsto> Num 1]
   \<and> linux_like [''__linux__'' \<mapsto> Num 1, ''_WIN32'' \<mapsto> Num 1, ''__APPLE__'' \<mapsto> Num 1]
   \<and> windows_like [''__linux__'' \<mapsto> Num 1, ''_WIN32'' \<mapsto> Num 1, ''__APPLE__'' \<mapsto> Num 1]
   \<and> (\<exists>s. resolve [''__linux__'' \<mapsto> Num 1, ''_WIN32'' \<mapsto> Num 1, ''__APPLE__'' \<mapsto> Num 1] = Inr s
        \<and> is_defined (macros s) ''LABSOUND_PLATFORM_LINUX''
        \<and> \<not> is_defined (macros s) ''LABSOUND_PLATFORM_WINDOWS''
        \<and> \<not> is_defined (macros s) ''LABSOUND_PLATFORM_OSX'')"
proof -
  let ?E = "[''__linux__'' \<mapsto> Num 1, ''_WIN32'' \<mapsto> Num 1, ''__APPLE__'' \<mapsto> Num 1]"
  have tc: "toolchain_env ?E"
    by (simp add: toolchain_env_def header_defines_def output_flags_def)
  have ok: "operands_wellformed ?E"
    by (simp add: operands_wellformed_def)
  have l: "linux_like ?E" and w: "windows_like ?E"
    by (simp_all add: linux_like_def windows_like_def is_defined_def)
  from os_family_first_match [OF tc ok] l w tc ok show ?thesis
    by blast
qed

text \<open>
  C3, as amended. \<^verbatim>\<open>LABSOUND_COMPILER_VISUAL_STUDIO\<close> is set exactly when
  \<^verbatim>\<open>_MSC_VER\<close> is present and neither \<^verbatim>\<open>__clang__\<close> nor
  \<^verbatim>\<open>__GNUC__\<close> is: the compiler chain tests those two first. On such an input the
  block for Visual Studio (\<^verbatim>\<open>stdint.h\<close>, \<^verbatim>\<open>_USE_MATH_DEFINES\<close>,
  \<^verbatim>\<open>math.h\<close>, \<^verbatim>\<open>cmath\<close>) is active, and the block as a whole is active only
  where that flag is set. Part by part: \<^verbatim>\<open>stdint.h\<close> and \<^verbatim>\<open>cmath\<close> are
  included exactly when the flag is set; \<^verbatim>\<open>math.h\<close> is included exactly when the flag
  is set or the family resolved to Linux-like or macOS-like (lines 43 to 46 include it there);
  the header defines \<^verbatim>\<open>_USE_MATH_DEFINES\<close> itself exactly when the flag is set, so
  after the header the macro is defined exactly when the flag is set or the build had
  predefined it. The last conjunct gives the include directives reached, in order.
\<close>

theorem msvc_shims_iff_visual_studio:
  assumes "build_env env" and "operands_wellformed env"
  shows "\<exists>s. resolve env = Inr s
     \<and> is_defined (macros s) ''LABSOUND_COMPILER_VISUAL_STUDIO''
         = (is_defined env ''_MSC_VER'' \<and> \<not> is_defined env ''__clang__''
            \<and> \<not> is_defined env ''__GNUC__'')
     \<and> msvc_shims_active s = is_defined (macros s) ''LABSOUND_COMPILER_VISUAL_STUDIO''
     \<and> (''stdint.h'' \<in> set (included s))
         = is_defined (macros s) ''LABSOUND_COMPILER_VISUAL_STUDIO''
     \<and> (''cmath'' \<in> set (included s))
         = is_defined (macros s) ''LABSOUND_COMPILER_VISUAL_STUDIO''
     \<and> (''math.h'' \<in> set (included s))
         = (is_defined (macros s) ''LABSOUND_COMPILER_VISUAL_STUDIO''
            \<or> is_defined (macros s) ''LABSOUND_PLATFORM_LINUX''
            \<or> is_defined (macros s) ''LABSOUND_PLATFORM_OSX'')
     \<and> macros s ''_USE_MATH_DEFINES''
         = (if is_defined (macros s) ''LABSOUND_COMPILER_VISUAL_STUDIO'' then Some Empty
            else env ''_USE_MATH_DEFINES'')
     \<and> is_defined (macros s) ''_USE_MATH_DEFINES''
         = (is_defined (macros s) ''LABSOUND_COMPILER_VISUAL_STUDIO''
            \<or> is_defined env ''_USE_MATH_DEFINES'')
     \<and> (is_defined env ''_MSC_VER'' \<and> \<not> is_defined env ''__clang__''
          \<and> \<not> is_defined env ''__GNUC__'' \<longrightarrow>
          is_defined (macros s) ''LABSOUND_COMPILER_VISUAL_STUDIO'' \<and> msvc_shims_active s)
     \<and> included s
         = (if is_defined (macros s) ''LABSOUND_COMPILER_VISUAL_STUDIO''
            then [''stdint.h'', ''math.h'', ''cmath''] else [])
           @ (if is_defined (macros s) ''LABSOUND_PLATFORM_OSX''
                 \<or> is_defined (macros s) ''LABSOUND_PLATFORM_LINUX''
              then [''math.h''] else [])"
proof -
  from resolved_shims [OF assms] obtain s where r: "resolve env = Inr s"
    and lin: "macros s ''LABSOUND_PLATFORM_LINUX'' = (if linux_like env then Some (Num 1) else None)"
    and osx: "macros s ''LABSOUND_PLATFORM_OSX'' =
           (if \<not> linux_like env \<and> \<not> windows_like env \<and> macos_like env
            then Some (Num 1) else None)"
    and vs: "macros s ''LABSOUND_COMPILER_VISUAL_STUDIO'' =
           (if \<not> is_defined env ''__clang__'' \<and> \<not> is_defined env ''__GNUC__''
               \<and> is_defined env ''_MSC_VER''
            then Some (Num 1) else None)"
    and um: "macros s ''_USE_MATH_DEFINES'' =
           (if \<not> is_defined env ''__clang__'' \<and> \<not> is_defined env ''__GNUC__''
               \<and> is_defined env ''_MSC_VER''
            then Some Empty else env ''_USE_MATH_DEFINES'')"
    and inc: "included s =
           (if \<not> is_defined env ''__clang__'' \<and> \<not> is_defined env ''__GNUC__''
               \<and> is_defined env ''_MSC_VER''
            then [''stdint.h'', ''math.h'', ''cmath''] else [])
           @ (if linux_like env \<or> (\<not> windows_like env \<and> macos_like env)
              then [''math.h''] else [])"
    by blast
  let ?vs = "is_defined env ''_MSC_VER'' \<and> \<not> is_defined env ''__clang__''
            \<and> \<not> is_defined env ''__GNUC__''"
  let ?posix = "linux_like env \<or> (\<not> windows_like env \<and> macos_like env)"
  have f_vs: "is_defined (macros s) ''LABSOUND_COMPILER_VISUAL_STUDIO'' = ?vs"
    using vs by (auto simp add: is_defined_def)
  have f_posix: "(is_defined (macros s) ''LABSOUND_PLATFORM_OSX''
      \<or> is_defined (macros s) ''LABSOUND_PLATFORM_LINUX'') = ?posix"
    using lin osx by (auto simp add: is_defined_def)
  have f_um: "macros s ''_USE_MATH_DEFINES'' = (if ?vs then Some Empty else env ''_USE_MATH_DEFINES'')"
    using um by auto
  have f_inc: "included s = (if ?vs then [''stdint.h'', ''math.h'', ''cmath''] else [])
      @ (if ?posix then [''math.h''] else [])"
    using inc by auto
  have f_umd: "is_defined (macros s) ''_USE_MATH_DEFINES''
      = (?vs \<or> is_defined env ''_USE_MATH_DEFINES'')"
    using f_um by (auto simp add: is_defined_def)
  have f_act: "msvc_shims_active s = ?vs"
    using f_inc f_umd by (auto simp add: msvc_shims_active_def)
  have f_std: "(''stdint.h'' \<in> set (included s)) = ?vs"
    and f_cm: "(''cmath'' \<in> set (included s)) = ?vs"
    and f_mh: "(''math.h'' \<in> set (included s)) = (?vs \<or> ?posix)"
    using f_inc by auto
  have f_mh': "(''math.h'' \<in> set (included s))
      = (is_defined (macros s) ''LABSOUND_COMPILER_VISUAL_STUDIO''
         \<or> is_defined (macros s) ''LABSOUND_PLATFORM_LINUX''
         \<or> is_defined (macros s) ''LABSOUND_PLATFORM_OSX'')"
    using f_mh f_vs f_posix by blast
  show ?thesis
    using r f_vs f_act f_std f_cm f_mh' f_um f_umd f_inc f_posix by auto
qed

theorem msvc_shims_iff_visual_studio_witness:
  "(build_env [''_MSC_VER'' \<mapsto> Num 1900, ''_WIN32'' \<mapsto> Num 1]
    \<and> operands_wellformed [''_MSC_VER'' \<mapsto> Num 1900, ''_WIN32'' \<mapsto> Num 1]
    \<and> is_defined [''_MSC_VER'' \<mapsto> Num 1900, ''_WIN32'' \<mapsto> Num 1] ''_MSC_VER''
    \<and> \<not> is_defined [''_MSC_VER'' \<mapsto> Num 1900, ''_WIN32'' \<mapsto> Num 1] ''__clang__''
    \<and> \<not> is_defined [''_MSC_VER'' \<mapsto> Num 1900, ''_WIN32'' \<mapsto> Num 1] ''__GNUC__''
    \<and> (\<exists>s. resolve [''_MSC_VER'' \<mapsto> Num 1900, ''_WIN32'' \<mapsto> Num 1] = Inr s
         \<and> is_defined (macros s) ''LABSOUND_COMPILER_VISUAL_STUDIO'' \<and> msvc_shims_active s
         \<and> included s = [''stdint.h'', ''math.h'', ''cmath'']))
   \<and> (build_env [''__GNUC__'' \<mapsto> Num 13, ''__MINGW32__'' \<mapsto> Num 1, ''_USE_MATH_DEFINES'' \<mapsto> Num 1]
    \<and> operands_wellformed
         [''__GNUC__'' \<mapsto> Num 13, ''__MINGW32__'' \<mapsto> Num 1, ''_USE_MATH_DEFINES'' \<mapsto> Num 1]
    \<and> (\<exists>s. resolve [''__GNUC__'' \<mapsto> Num 13, ''__MINGW32__'' \<mapsto> Num 1,
                      ''_USE_MATH_DEFINES'' \<mapsto> Num 1] = Inr s
         \<and> \<not> is_defined (macros s) ''LABSOUND_COMPILER_VISUAL_STUDIO''
         \<and> macros s ''_USE_MATH_DEFINES'' = Some (Num 1)
         \<and> \<not> msvc_shims_active s))"
proof -
  let ?A = "[''_MSC_VER'' \<mapsto> Num 1900, ''_WIN32'' \<mapsto> Num 1]"
  let ?B = "[''__GNUC__'' \<mapsto> Num 13, ''__MINGW32__'' \<mapsto> Num 1, ''_USE_MATH_DEFINES'' \<mapsto> Num 1]"
  have be: "build_env ?A" "build_env ?B"
    by (simp_all add: build_env_def header_defines_def output_flags_def)
  have ok: "operands_wellformed ?A" "operands_wellformed ?B"
    by (simp_all add: operands_wellformed_def)
  have a: "is_defined ?A ''_MSC_VER''" "\<not> is_defined ?A ''__clang__''"
    "\<not> is_defined ?A ''__GNUC__''" "\<not> linux_like ?A" "windows_like ?A"
    by (simp_all add: is_defined_def linux_like_def windows_like_def)
  have b: "is_defined ?B ''__GNUC__''" "?B ''_USE_MATH_DEFINES'' = Some (Num 1)"
    by (simp_all add: is_defined_def)
  from msvc_shims_iff_visual_studio [OF be(1) ok(1)] obtain s where
    sa: "resolve ?A = Inr s"
    "is_defined (macros s) ''LABSOUND_COMPILER_VISUAL_STUDIO''
       = (is_defined ?A ''_MSC_VER'' \<and> \<not> is_defined ?A ''__clang__''
          \<and> \<not> is_defined ?A ''__GNUC__'')"
    "msvc_shims_active s = is_defined (macros s) ''LABSOUND_COMPILER_VISUAL_STUDIO''"
    "(''math.h'' \<in> set (included s))
       = (is_defined (macros s) ''LABSOUND_COMPILER_VISUAL_STUDIO''
          \<or> is_defined (macros s) ''LABSOUND_PLATFORM_LINUX''
          \<or> is_defined (macros s) ''LABSOUND_PLATFORM_OSX'')"
    "included s
       = (if is_defined (macros s) ''LABSOUND_COMPILER_VISUAL_STUDIO''
          then [''stdint.h'', ''math.h'', ''cmath''] else [])
         @ (if is_defined (macros s) ''LABSOUND_PLATFORM_OSX''
               \<or> is_defined (macros s) ''LABSOUND_PLATFORM_LINUX''
            then [''math.h''] else [])"
    by blast
  have vs_a: "is_defined (macros s) ''LABSOUND_COMPILER_VISUAL_STUDIO''"
    using sa(2) a by simp
  have no_posix: "\<not> (is_defined (macros s) ''LABSOUND_PLATFORM_OSX''
      \<or> is_defined (macros s) ''LABSOUND_PLATFORM_LINUX'')"
  proof
    assume p: "is_defined (macros s) ''LABSOUND_PLATFORM_OSX''
      \<or> is_defined (macros s) ''LABSOUND_PLATFORM_LINUX''"
    from resolved_shims [OF be(1) ok(1)] obtain s' where "resolve ?A = Inr s'"
      and "macros s' ''LABSOUND_PLATFORM_LINUX'' = (if linux_like ?A then Some (Num 1) else None)"
      and "macros s' ''LABSOUND_PLATFORM_OSX'' =
           (if \<not> linux_like ?A \<and> \<not> windows_like ?A \<and> macos_like ?A
            then Some (Num 1) else None)"
      by blast
    with sa(1) a p show False
      by (auto simp add: is_defined_def)
  qed
  have inc_a: "included s = [''stdint.h'', ''math.h'', ''cmath'']"
    using sa(5) vs_a no_posix by simp
  have part_a: "\<exists>s. resolve ?A = Inr s
         \<and> is_defined (macros s) ''LABSOUND_COMPILER_VISUAL_STUDIO'' \<and> msvc_shims_active s
         \<and> included s = [''stdint.h'', ''math.h'', ''cmath'']"
    using sa(1) sa(3) vs_a inc_a by blast
  from msvc_shims_iff_visual_studio [OF be(2) ok(2)] obtain t where
    sb: "resolve ?B = Inr t"
    "is_defined (macros t) ''LABSOUND_COMPILER_VISUAL_STUDIO''
       = (is_defined ?B ''_MSC_VER'' \<and> \<not> is_defined ?B ''__clang__''
          \<and> \<not> is_defined ?B ''__GNUC__'')"
    "msvc_shims_active t = is_defined (macros t) ''LABSOUND_COMPILER_VISUAL_STUDIO''"
    "macros t ''_USE_MATH_DEFINES''
       = (if is_defined (macros t) ''LABSOUND_COMPILER_VISUAL_STUDIO'' then Some Empty
          else ?B ''_USE_MATH_DEFINES'')"
    by blast
  have vs_b: "\<not> is_defined (macros t) ''LABSOUND_COMPILER_VISUAL_STUDIO''"
    using sb(2) b(1) by simp
  have part_b: "\<exists>s. resolve ?B = Inr s
         \<and> \<not> is_defined (macros s) ''LABSOUND_COMPILER_VISUAL_STUDIO''
         \<and> macros s ''_USE_MATH_DEFINES'' = Some (Num 1)
         \<and> \<not> msvc_shims_active s"
    using sb(1) sb(3) sb(4) vs_b b(2) by auto
  show ?thesis
    using be ok a(1-3) part_a part_b by blast
qed

text \<open>
  C3 as it was stated fails in three places. For clang-cl, which predefines both
  \<^verbatim>\<open>__clang__\<close> and \<^verbatim>\<open>_MSC_VER\<close>, \<^verbatim>\<open>_MSC_VER\<close> is present, yet the flag
  for Visual Studio stays unset, \<^verbatim>\<open>_USE_MATH_DEFINES\<close> stays undefined and no header is
  included. For GCC on Linux the compiler identity is not Visual Studio, yet
  \<^verbatim>\<open>math.h\<close> is included, by line 44. For MinGW GCC with
  \<^verbatim>\<open>-D_USE_MATH_DEFINES\<close> the compiler identity is not Visual Studio, yet
  \<^verbatim>\<open>_USE_MATH_DEFINES\<close> is defined after the header.
\<close>

theorem msc_ver_under_clang_counterexample:
  "is_defined [''__clang__'' \<mapsto> Num 1, ''_MSC_VER'' \<mapsto> Num 1900, ''_WIN32'' \<mapsto> Num 1] ''_MSC_VER''
   \<and> defined_after [''__clang__'' \<mapsto> Num 1, ''_MSC_VER'' \<mapsto> Num 1900, ''_WIN32'' \<mapsto> Num 1]
        ''LABSOUND_COMPILER_VISUAL_STUDIO'' = Inr False
   \<and> defined_after [''__clang__'' \<mapsto> Num 1, ''_MSC_VER'' \<mapsto> Num 1900, ''_WIN32'' \<mapsto> Num 1]
        ''_USE_MATH_DEFINES'' = Inr False
   \<and> included_after [''__clang__'' \<mapsto> Num 1, ''_MSC_VER'' \<mapsto> Num 1900, ''_WIN32'' \<mapsto> Num 1]
        = Inr []
   \<and> defined_after [''__linux__'' \<mapsto> Num 1, ''__GNUC__'' \<mapsto> Num 13]
        ''LABSOUND_COMPILER_VISUAL_STUDIO'' = Inr False
   \<and> included_after [''__linux__'' \<mapsto> Num 1, ''__GNUC__'' \<mapsto> Num 13] = Inr [''math.h'']
   \<and> defined_after [''__GNUC__'' \<mapsto> Num 13, ''__MINGW32__'' \<mapsto> Num 1, ''_USE_MATH_DEFINES'' \<mapsto> Num 1]
        ''LABSOUND_COMPILER_VISUAL_STUDIO'' = Inr False
   \<and> defined_after [''__GNUC__'' \<mapsto> Num 13, ''__MINGW32__'' \<mapsto> Num 1, ''_USE_MATH_DEFINES'' \<mapsto> Num 1]
        ''_USE_MATH_DEFINES'' = Inr True"
proof -
  let ?A = "[''__clang__'' \<mapsto> Num 1, ''_MSC_VER'' \<mapsto> Num 1900, ''_WIN32'' \<mapsto> Num 1]"
  let ?B = "[''__linux__'' \<mapsto> Num 1, ''__GNUC__'' \<mapsto> Num 13]"
  let ?C = "[''__GNUC__'' \<mapsto> Num 13, ''__MINGW32__'' \<mapsto> Num 1, ''_USE_MATH_DEFINES'' \<mapsto> Num 1]"
  have be: "build_env ?A" "build_env ?B" "build_env ?C"
    by (simp_all add: build_env_def header_defines_def output_flags_def)
  have ok: "operands_wellformed ?A" "operands_wellformed ?B" "operands_wellformed ?C"
    by (simp_all add: operands_wellformed_def)
  have a: "is_defined ?A ''_MSC_VER''" "is_defined ?A ''__clang__''"
    "\<not> linux_like ?A" "windows_like ?A"
    by (simp_all add: is_defined_def linux_like_def windows_like_def)
  have b: "is_defined ?B ''__GNUC__''" "linux_like ?B"
    by (simp_all add: is_defined_def linux_like_def)
  have c: "is_defined ?C ''__GNUC__''" "?C ''_USE_MATH_DEFINES'' = Some (Num 1)"
    by (simp_all add: is_defined_def)
  from resolved_shims [OF be(1) ok(1)] obtain s where "resolve ?A = Inr s"
    and "macros s ''LABSOUND_COMPILER_VISUAL_STUDIO'' =
           (if \<not> is_defined ?A ''__clang__'' \<and> \<not> is_defined ?A ''__GNUC__''
               \<and> is_defined ?A ''_MSC_VER''
            then Some (Num 1) else None)"
    and "macros s ''_USE_MATH_DEFINES'' =
           (if \<not> is_defined ?A ''__clang__'' \<and> \<not> is_defined ?A ''__GNUC__''
               \<and> is_defined ?A ''_MSC_VER''
            then Some Empty else ?A ''_USE_MATH_DEFINES'')"
    and "included s =
           (if \<not> is_defined ?A ''__clang__'' \<and> \<not> is_defined ?A ''__GNUC__''
               \<and> is_defined ?A ''_MSC_VER''
            then [''stdint.h'', ''math.h'', ''cmath''] else [])
           @ (if linux_like ?A \<or> (\<not> windows_like ?A \<and> macos_like ?A)
              then [''math.h''] else [])"
    by blast
  with a have pa: "defined_after ?A ''LABSOUND_COMPILER_VISUAL_STUDIO'' = Inr False"
    "defined_after ?A ''_USE_MATH_DEFINES'' = Inr False" "included_after ?A = Inr []"
    by (simp_all add: defined_after_def included_after_def is_defined_def)
  from resolved_shims [OF be(2) ok(2)] obtain t where "resolve ?B = Inr t"
    and "macros t ''LABSOUND_COMPILER_VISUAL_STUDIO'' =
           (if \<not> is_defined ?B ''__clang__'' \<and> \<not> is_defined ?B ''__GNUC__''
               \<and> is_defined ?B ''_MSC_VER''
            then Some (Num 1) else None)"
    and "included t =
           (if \<not> is_defined ?B ''__clang__'' \<and> \<not> is_defined ?B ''__GNUC__''
               \<and> is_defined ?B ''_MSC_VER''
            then [''stdint.h'', ''math.h'', ''cmath''] else [])
           @ (if linux_like ?B \<or> (\<not> windows_like ?B \<and> macos_like ?B)
              then [''math.h''] else [])"
    by blast
  with b have pb: "defined_after ?B ''LABSOUND_COMPILER_VISUAL_STUDIO'' = Inr False"
    "included_after ?B = Inr [''math.h'']"
    by (simp_all add: defined_after_def included_after_def is_defined_def)
  from resolved_shims [OF be(3) ok(3)] obtain u where "resolve ?C = Inr u"
    and "macros u ''LABSOUND_COMPILER_VISUAL_STUDIO'' =
           (if \<not> is_defined ?C ''__clang__'' \<and> \<not> is_defined ?C ''__GNUC__''
               \<and> is_defined ?C ''_MSC_VER''
            then Some (Num 1) else None)"
    and "macros u ''_USE_MATH_DEFINES'' =
           (if \<not> is_defined ?C ''__clang__'' \<and> \<not> is_defined ?C ''__GNUC__''
               \<and> is_defined ?C ''_MSC_VER''
            then Some Empty else ?C ''_USE_MATH_DEFINES'')"
    by blast
  with c have pc: "defined_after ?C ''LABSOUND_COMPILER_VISUAL_STUDIO'' = Inr False"
    "defined_after ?C ''_USE_MATH_DEFINES'' = Inr True"
    by (simp_all add: defined_after_def is_defined_def)
  from a(1) pa pb pc show ?thesis
    by blast
qed

text \<open>
  C4, as amended. The header's own \<^verbatim>\<open>#define __SSE2__\<close> is reached exactly when
  the condition of the specification holds (\<open>sse2_spec\<close>, which is what line 28 evaluates
  to). After the header \<^verbatim>\<open>__SSE2__\<close> is defined exactly when that condition holds
  or the toolchain had predefined it; where the toolchain did not predefine it, the flag is
  set if and only if the condition holds.
\<close>

theorem sse2_flag_iff_condition_or_predefined:
  assumes "toolchain_env env" and "operands_wellformed env"
  shows "\<exists>s. resolve env = Inr s
     \<and> sse2_condition env = Inr (sse2_spec env)
     \<and> macros s ''__SSE2__'' = (if sse2_spec env then Some Empty else env ''__SSE2__'')
     \<and> is_defined (macros s) ''__SSE2__'' = (is_defined env ''__SSE2__'' \<or> sse2_spec env)
     \<and> (\<not> is_defined env ''__SSE2__'' \<longrightarrow>
          is_defined (macros s) ''__SSE2__'' = sse2_spec env)"
proof -
  from resolved [OF assms] obtain s where "resolve env = Inr s"
    and "macros s ''__SSE2__'' = (if sse2_spec env then Some Empty else env ''__SSE2__'')"
    by blast
  then show ?thesis
    using sse2_condition_ok [OF assms(2)] by (auto simp add: is_defined_def)
qed

theorem sse2_flag_iff_condition_or_predefined_witness:
  "toolchain_env [''_MSC_VER'' \<mapsto> Num 1900, ''_WIN64'' \<mapsto> Num 1, ''_M_X64'' \<mapsto> Num 100,
                  ''_M_AMD64'' \<mapsto> Num 100]
   \<and> operands_wellformed [''_MSC_VER'' \<mapsto> Num 1900, ''_WIN64'' \<mapsto> Num 1, ''_M_X64'' \<mapsto> Num 100,
                  ''_M_AMD64'' \<mapsto> Num 100]
   \<and> \<not> is_defined [''_MSC_VER'' \<mapsto> Num 1900, ''_WIN64'' \<mapsto> Num 1, ''_M_X64'' \<mapsto> Num 100,
                  ''_M_AMD64'' \<mapsto> Num 100] ''__SSE2__''
   \<and> (\<exists>s. resolve [''_MSC_VER'' \<mapsto> Num 1900, ''_WIN64'' \<mapsto> Num 1, ''_M_X64'' \<mapsto> Num 100,
                  ''_M_AMD64'' \<mapsto> Num 100] = Inr s
        \<and> macros s ''__SSE2__'' = Some Empty)"
proof -
  let ?E = "[''_MSC_VER'' \<mapsto> Num 1900, ''_WIN64'' \<mapsto> Num 1, ''_M_X64'' \<mapsto> Num 100,
             ''_M_AMD64'' \<mapsto> Num 100]"
  have tc: "toolchain_env ?E"
    by (simp add: toolchain_env_def header_defines_def output_flags_def)
  have ok: "operands_wellformed ?E"
    by (simp add: operands_wellformed_def)
  have c: "\<not> is_defined ?E ''__SSE2__''" "sse2_spec ?E"
    by (simp_all add: is_defined_def sse2_spec_def)
  from sse2_flag_iff_condition_or_predefined [OF tc ok] obtain s where "resolve ?E = Inr s"
    and "macros s ''__SSE2__'' = (if sse2_spec ?E then Some Empty else ?E ''__SSE2__'')"
    by blast
  with c(2) have "resolve ?E = Inr s \<and> macros s ''__SSE2__'' = Some Empty"
    by simp
  then show ?thesis
    using tc ok c(1) by blast
qed

text \<open>
  C4 as it was stated fails for GCC on x86-64 Linux, which predefines \<^verbatim>\<open>__SSE2__\<close>
  itself: none of \<^verbatim>\<open>_M_IX86_FP\<close>, \<^verbatim>\<open>_M_AMD64\<close>, \<^verbatim>\<open>_M_X64\<close>
  is present, the group of line 28 is skipped, and \<^verbatim>\<open>__SSE2__\<close> is defined after
  the header all the same.
\<close>

theorem sse2_predefined_counterexample:
  "toolchain_env [''__GNUC__'' \<mapsto> Num 13, ''__linux__'' \<mapsto> Num 1, ''__x86_64__'' \<mapsto> Num 1,
                  ''__SSE2__'' \<mapsto> Num 1]
   \<and> defined_after [''__GNUC__'' \<mapsto> Num 13, ''__linux__'' \<mapsto> Num 1, ''__x86_64__'' \<mapsto> Num 1,
                     ''__SSE2__'' \<mapsto> Num 1] ''__SSE2__'' = Inr True
   \<and> \<not> sse2_spec [''__GNUC__'' \<mapsto> Num 13, ''__linux__'' \<mapsto> Num 1, ''__x86_64__'' \<mapsto> Num 1,
                    ''__SSE2__'' \<mapsto> Num 1]
   \<and> \<not> is_defined [''__GNUC__'' \<mapsto> Num 13, ''__linux__'' \<mapsto> Num 1, ''__x86_64__'' \<mapsto> Num 1,
                     ''__SSE2__'' \<mapsto> Num 1] ''_M_IX86_FP''
   \<and> \<not> is_defined [''__GNUC__'' \<mapsto> Num 13, ''__linux__'' \<mapsto> Num 1, ''__x86_64__'' \<mapsto> Num 1,
                     ''__SSE2__'' \<mapsto> Num 1] ''_M_AMD64''
   \<and> \<not> is_defined [''__GNUC__'' \<mapsto> Num 13, ''__linux__'' \<mapsto> Num 1, ''__x86_64__'' \<mapsto> Num 1,
                     ''__SSE2__'' \<mapsto> Num 1] ''_M_X64''"
proof -
  let ?E = "[''__GNUC__'' \<mapsto> Num 13, ''__linux__'' \<mapsto> Num 1, ''__x86_64__'' \<mapsto> Num 1,
             ''__SSE2__'' \<mapsto> Num 1]"
  have tc: "toolchain_env ?E"
    by (simp add: toolchain_env_def header_defines_def output_flags_def)
  have ok: "operands_wellformed ?E"
    by (simp add: operands_wellformed_def)
  have c: "\<not> sse2_spec ?E" "\<not> is_defined ?E ''_M_IX86_FP''" "\<not> is_defined ?E ''_M_AMD64''"
    "\<not> is_defined ?E ''_M_X64''"
    by (simp_all add: is_defined_def sse2_spec_def)
  from resolved [OF tc ok] obtain s where "resolve ?E = Inr s"
    and "macros s ''__SSE2__'' = (if sse2_spec ?E then Some Empty else ?E ''__SSE2__'')"
    by blast
  with c(1) have "defined_after ?E ''__SSE2__'' = Inr True"
    by (simp add: defined_after_def is_defined_def)
  with tc c show ?thesis
    by blast
qed

text \<open>
  C5. When none of the symbols the header tests is present (and no output flag is predefined),
  the header is translated without failure, includes nothing, causes no diagnostic and
  defines nothing but its include guard: every output flag is left unset.
\<close>

theorem nothing_recognised_nothing_set:
  assumes "list_all (\<lambda>n. \<not> is_defined env n) input_symbols"
    and "toolchain_env env" and "\<not> is_defined env ''__SSE2__''"
  shows "resolve env = Inr \<lparr>macros = env(''labsound_macros_h'' \<mapsto> Empty), included = [], diags = []\<rparr>
     \<and> list_all (\<lambda>n. \<not> is_defined (env(''labsound_macros_h'' \<mapsto> Empty)) n) output_flags"
proof -
  note tcs = toolchain_envD [OF assms(2)]
  have ins: "list_all (\<lambda>n. env n = None) input_symbols"
    using assms(1) by (simp add: is_defined_def)
  have sse: "env ''__SSE2__'' = None"
    using assms(3) by (simp add: is_defined_def)
  let ?s1 = "pp_define ''labsound_macros_h'' Empty (initial env)"
  have m1: "macros ?s1 = env(''labsound_macros_h'' \<mapsto> Empty)"
    by (simp add: pp_simps)
  have conds: "\<not> linux_like (macros ?s1)" "\<not> windows_like (macros ?s1)"
    "\<not> macos_like (macros ?s1)" "\<not> arch32_like (macros ?s1)" "\<not> arch64_like (macros ?s1)"
    "\<not> is_defined (macros ?s1) ''__clang__''" "\<not> is_defined (macros ?s1) ''__GNUC__''"
    "\<not> is_defined (macros ?s1) ''_MSC_VER''" "\<not> is_defined (macros ?s1) ''__ARM_NEON__''"
    "sse2_condition (macros ?s1) = Inr False"
    using ins
    by (simp_all add: m1 input_symbols_def linux_like_def windows_like_def macos_like_def
        arch32_like_def arch64_like_def sse2_condition_def pp_operand_def is_defined_def)
  have own: "\<not> is_defined (macros ?s1) ''LABSOUND_COMPILER_VISUAL_STUDIO''"
    "\<not> is_defined (macros ?s1) ''LABSOUND_PLATFORM_OSX''"
    "\<not> is_defined (macros ?s1) ''LABSOUND_PLATFORM_LINUX''"
    by (simp_all add: m1 is_defined_def tcs)
  have "resolve env = Inr ?s1"
    using conds own
    by (simp add: resolve_def resolve_state_def os_family_def word_width_def compiler_id_def
        simd_def msvc_shims_def neon_def posix_math_def fft_linux_def fft_osx_def
        macros_initial is_defined_def tcs)
  moreover have "?s1 = \<lparr>macros = env(''labsound_macros_h'' \<mapsto> Empty), included = [], diags = []\<rparr>"
    by (simp add: pp_define_def initial_def tcs)
  moreover have "list_all (\<lambda>n. \<not> is_defined (env(''labsound_macros_h'' \<mapsto> Empty)) n) output_flags"
    by (simp add: output_flags_def is_defined_def tcs sse)
  ultimately show ?thesis
    by simp
qed

theorem nothing_recognised_nothing_set_witness:
  "list_all (\<lambda>n. \<not> is_defined Map.empty n) input_symbols
   \<and> toolchain_env Map.empty \<and> \<not> is_defined Map.empty ''__SSE2__''
   \<and> resolve Map.empty
       = Inr \<lparr>macros = [''labsound_macros_h'' \<mapsto> Empty], included = [], diags = []\<rparr>
   \<and> list_all (\<lambda>n. \<not> is_defined [''labsound_macros_h'' \<mapsto> Empty] n) output_flags"
proof -
  have h: "list_all (\<lambda>n. \<not> is_defined Map.empty n) input_symbols"
    "toolchain_env Map.empty" "\<not> is_defined Map.empty ''__SSE2__''"
    by (simp_all add: is_defined_def toolchain_env_def list_all_iff)
  from nothing_recognised_nothing_set [OF h] h show ?thesis
    by blast
qed

text \<open>
  C6. The word width is resolved by the first group that matches, 32-bit identifiers before
  64-bit ones: \<^verbatim>\<open>LABSOUND_ARCH_32\<close> is set exactly when a 32-bit identifier is
  present, \<^verbatim>\<open>LABSOUND_ARCH_64\<close> exactly when none is and a 64-bit identifier is.
  So a 64-bit identifier without a 32-bit one sets \<^verbatim>\<open>LABSOUND_ARCH_64\<close> only, and
  a 32-bit identifier together with a 64-bit one sets \<^verbatim>\<open>LABSOUND_ARCH_32\<close> only.
\<close>

theorem word_width_first_match:
  assumes "toolchain_env env" and "operands_wellformed env"
  shows "\<exists>s. resolve env = Inr s
     \<and> is_defined (macros s) ''LABSOUND_ARCH_32'' = arch32_like env
     \<and> is_defined (macros s) ''LABSOUND_ARCH_64'' = (\<not> arch32_like env \<and> arch64_like env)
     \<and> (arch64_like env \<and> \<not> arch32_like env \<longrightarrow>
          is_defined (macros s) ''LABSOUND_ARCH_64''
          \<and> \<not> is_defined (macros s) ''LABSOUND_ARCH_32'')
     \<and> (arch32_like env \<and> arch64_like env \<longrightarrow>
          is_defined (macros s) ''LABSOUND_ARCH_32''
          \<and> \<not> is_defined (macros s) ''LABSOUND_ARCH_64'')"
proof -
  from resolved [OF assms] obtain s where "resolve env = Inr s"
    and "macros s ''LABSOUND_ARCH_32'' = (if arch32_like env then Some (Num 1) else None)"
    and "macros s ''LABSOUND_ARCH_64'' =
           (if \<not> arch32_like env \<and> arch64_like env then Some (Num 1) else None)"
    by blast
  then show ?thesis
    by (simp add: is_defined_def)
qed

theorem word_width_first_match_witness:
  "(toolchain_env [''__x86_64__'' \<mapsto> Num 1]
    \<and> operands_wellformed [''__x86_64__'' \<mapsto> Num 1]
    \<and> arch64_like [''__x86_64__'' \<mapsto> Num 1] \<and> \<not> arch32_like [''__x86_64__'' \<mapsto> Num 1]
    \<and> (\<exists>s. resolve [''__x86_64__'' \<mapsto> Num 1] = Inr s
         \<and> is_defined (macros s) ''LABSOUND_ARCH_64''
         \<and> \<not> is_defined (macros s) ''LABSOUND_ARCH_32''))
   \<and> (toolchain_env [''__i386__'' \<mapsto> Num 1, ''__x86_64__'' \<mapsto> Num 1]
    \<and> operands_wellformed [''__i386__'' \<mapsto> Num 1, ''__x86_64__'' \<mapsto> Num 1]
    \<and> arch32_like [''__i386__'' \<mapsto> Num 1, ''__x86_64__'' \<mapsto> Num 1]
    \<and> arch64_like [''__i386__'' \<mapsto> Num 1, ''__x86_64__'' \<mapsto> Num 1]
    \<and> (\<exists>s. resolve [''__i386__'' \<mapsto> Num 1, ''__x86_64__'' \<mapsto> Num 1] = Inr s
         \<and> is_defined (macros s) ''LABSOUND_ARCH_32''
         \<and> \<not> is_defined (macros s) ''LABSOUND_ARCH_64''))"
proof -
  let ?A = "[''__x86_64__'' \<mapsto> Num 1]"
  let ?B = "[''__i386__'' \<mapsto> Num 1, ''__x86_64__'' \<mapsto> Num 1]"
  have tc: "toolchain_env ?A" "toolchain_env ?B"
    by (simp_all add: toolchain_env_def header_defines_def output_flags_def)
  have ok: "operands_wellformed ?A" "operands_wellformed ?B"
    by (simp_all add: operands_wellformed_def)
  have a: "arch64_like ?A" "\<not> arch32_like ?A" and b: "arch32_like ?B" "arch64_like ?B"
    by (simp_all add: arch32_like_def arch64_like_def is_defined_def)
  have "\<exists>s. resolve ?A = Inr s \<and> is_defined (macros s) ''LABSOUND_ARCH_64''
         \<and> \<not> is_defined (macros s) ''LABSOUND_ARCH_32''"
    using word_width_first_match [OF tc(1) ok(1)] a by blast
  moreover have "\<exists>s. resolve ?B = Inr s \<and> is_defined (macros s) ''LABSOUND_ARCH_32''
         \<and> \<not> is_defined (macros s) ''LABSOUND_ARCH_64''"
    using word_width_first_match [OF tc(2) ok(2)] b by blast
  ultimately show ?thesis
    using tc ok a b by blast
qed

text \<open>
  C7. At most one flag is set in each group: the three platform flags, the two word width
  flags, the three compiler flags. With \<^verbatim>\<open>__clang__\<close> present together with
  \<^verbatim>\<open>__GNUC__\<close> or \<^verbatim>\<open>_MSC_VER\<close>, only
  \<^verbatim>\<open>LABSOUND_COMPILER_CLANG\<close> is set.
\<close>

theorem at_most_one_per_group:
  assumes "toolchain_env env" and "operands_wellformed env"
  shows "\<exists>s. resolve env = Inr s
     \<and> length (filter (is_defined (macros s))
          [''LABSOUND_PLATFORM_LINUX'', ''LABSOUND_PLATFORM_WINDOWS'', ''LABSOUND_PLATFORM_OSX''])
         \<le> 1
     \<and> length (filter (is_defined (macros s)) [''LABSOUND_ARCH_32'', ''LABSOUND_ARCH_64'']) \<le> 1
     \<and> length (filter (is_defined (macros s))
          [''LABSOUND_COMPILER_CLANG'', ''LABSOUND_COMPILER_GCC'',
           ''LABSOUND_COMPILER_VISUAL_STUDIO''])
         \<le> 1
     \<and> (is_defined env ''__clang__''
          \<and> (is_defined env ''__GNUC__'' \<or> is_defined env ''_MSC_VER'') \<longrightarrow>
          is_defined (macros s) ''LABSOUND_COMPILER_CLANG''
          \<and> \<not> is_defined (macros s) ''LABSOUND_COMPILER_GCC''
          \<and> \<not> is_defined (macros s) ''LABSOUND_COMPILER_VISUAL_STUDIO'')"
proof -
  from resolved [OF assms] obtain s where "resolve env = Inr s"
    and "macros s ''LABSOUND_PLATFORM_LINUX'' = (if linux_like env then Some (Num 1) else None)"
    and "macros s ''LABSOUND_PLATFORM_WINDOWS'' =
           (if \<not> linux_like env \<and> windows_like env then Some (Num 1) else None)"
    and "macros s ''LABSOUND_PLATFORM_OSX'' =
           (if \<not> linux_like env \<and> \<not> windows_like env \<and> macos_like env
            then Some (Num 1) else None)"
    and "macros s ''LABSOUND_ARCH_32'' = (if arch32_like env then Some (Num 1) else None)"
    and "macros s ''LABSOUND_ARCH_64'' =
           (if \<not> arch32_like env \<and> arch64_like env then Some (Num 1) else None)"
    and "macros s ''LABSOUND_COMPILER_CLANG'' =
           (if is_defined env ''__clang__'' then Some (Num 1) else None)"
    and "macros s ''LABSOUND_COMPILER_GCC'' =
           (if \<not> is_defined env ''__clang__'' \<and> is_defined env ''__GNUC__''
            then Some (Num 1) else None)"
    and "macros s ''LABSOUND_COMPILER_VISUAL_STUDIO'' =
           (if \<not> is_defined env ''__clang__'' \<and> \<not> is_defined env ''__GNUC__''
               \<and> is_defined env ''_MSC_VER''
            then Some (Num 1) else None)"
    by blast
  then show ?thesis
    by (simp add: is_defined_def)
qed

theorem at_most_one_per_group_witness:
  "toolchain_env [''__clang__'' \<mapsto> Num 1, ''__GNUC__'' \<mapsto> Num 4, ''_MSC_VER'' \<mapsto> Num 1900]
   \<and> operands_wellformed
        [''__clang__'' \<mapsto> Num 1, ''__GNUC__'' \<mapsto> Num 4, ''_MSC_VER'' \<mapsto> Num 1900]
   \<and> is_defined [''__clang__'' \<mapsto> Num 1, ''__GNUC__'' \<mapsto> Num 4, ''_MSC_VER'' \<mapsto> Num 1900]
        ''__clang__''
   \<and> is_defined [''__clang__'' \<mapsto> Num 1, ''__GNUC__'' \<mapsto> Num 4, ''_MSC_VER'' \<mapsto> Num 1900]
        ''__GNUC__''
   \<and> (\<exists>s. resolve [''__clang__'' \<mapsto> Num 1, ''__GNUC__'' \<mapsto> Num 4, ''_MSC_VER'' \<mapsto> Num 1900]
          = Inr s
        \<and> is_defined (macros s) ''LABSOUND_COMPILER_CLANG''
        \<and> \<not> is_defined (macros s) ''LABSOUND_COMPILER_GCC''
        \<and> \<not> is_defined (macros s) ''LABSOUND_COMPILER_VISUAL_STUDIO'')"
proof -
  let ?E = "[''__clang__'' \<mapsto> Num 1, ''__GNUC__'' \<mapsto> Num 4, ''_MSC_VER'' \<mapsto> Num 1900]"
  have tc: "toolchain_env ?E"
    by (simp add: toolchain_env_def header_defines_def output_flags_def)
  have ok: "operands_wellformed ?E"
    by (simp add: operands_wellformed_def)
  have c: "is_defined ?E ''__clang__''" "is_defined ?E ''__GNUC__''"
    by (simp_all add: is_defined_def)
  from at_most_one_per_group [OF tc ok] c tc ok show ?thesis
    by blast
qed

text \<open>
  C8. \<^verbatim>\<open>ARM_NEON_INTRINSICS\<close> is set exactly when \<^verbatim>\<open>__ARM_NEON__\<close> is
  present, and nothing else matters: two inputs that agree on the presence of
  \<^verbatim>\<open>__ARM_NEON__\<close> give the flag the same value, whatever their other symbols.
\<close>

theorem neon_flag_iff_symbol:
  assumes "toolchain_env env" and "operands_wellformed env"
    and "toolchain_env env'" and "operands_wellformed env'"
    and "is_defined env' ''__ARM_NEON__'' = is_defined env ''__ARM_NEON__''"
  shows "\<exists>s s'. resolve env = Inr s \<and> resolve env' = Inr s'
     \<and> is_defined (macros s) ''ARM_NEON_INTRINSICS'' = is_defined env ''__ARM_NEON__''
     \<and> is_defined (macros s') ''ARM_NEON_INTRINSICS''
         = is_defined (macros s) ''ARM_NEON_INTRINSICS''"
proof -
  from resolved [OF assms(1,2)] obtain s where "resolve env = Inr s"
    and "macros s ''ARM_NEON_INTRINSICS'' =
           (if is_defined env ''__ARM_NEON__'' then Some (Num 1) else None)"
    by blast
  moreover from resolved [OF assms(3,4)] obtain s' where "resolve env' = Inr s'"
    and "macros s' ''ARM_NEON_INTRINSICS'' =
           (if is_defined env' ''__ARM_NEON__'' then Some (Num 1) else None)"
    by blast
  ultimately show ?thesis
    using assms(5) by (simp add: is_defined_def)
qed

theorem neon_flag_iff_symbol_witness:
  "toolchain_env [''__ARM_NEON__'' \<mapsto> Num 1, ''__linux__'' \<mapsto> Num 1, ''__GNUC__'' \<mapsto> Num 13]
   \<and> operands_wellformed
        [''__ARM_NEON__'' \<mapsto> Num 1, ''__linux__'' \<mapsto> Num 1, ''__GNUC__'' \<mapsto> Num 13]
   \<and> toolchain_env [''__ARM_NEON__'' \<mapsto> Num 1, ''__APPLE__'' \<mapsto> Num 1, ''__clang__'' \<mapsto> Num 1]
   \<and> operands_wellformed
        [''__ARM_NEON__'' \<mapsto> Num 1, ''__APPLE__'' \<mapsto> Num 1, ''__clang__'' \<mapsto> Num 1]
   \<and> is_defined [''__ARM_NEON__'' \<mapsto> Num 1, ''__APPLE__'' \<mapsto> Num 1, ''__clang__'' \<mapsto> Num 1]
        ''__ARM_NEON__''
   \<and> is_defined [''__ARM_NEON__'' \<mapsto> Num 1, ''__linux__'' \<mapsto> Num 1, ''__GNUC__'' \<mapsto> Num 13]
        ''__ARM_NEON__''
   \<and> (\<exists>s s'.
        resolve [''__ARM_NEON__'' \<mapsto> Num 1, ''__linux__'' \<mapsto> Num 1, ''__GNUC__'' \<mapsto> Num 13]
          = Inr s
        \<and> resolve [''__ARM_NEON__'' \<mapsto> Num 1, ''__APPLE__'' \<mapsto> Num 1, ''__clang__'' \<mapsto> Num 1]
          = Inr s'
        \<and> is_defined (macros s) ''ARM_NEON_INTRINSICS''
        \<and> is_defined (macros s') ''ARM_NEON_INTRINSICS'')"
proof -
  let ?A = "[''__ARM_NEON__'' \<mapsto> Num 1, ''__linux__'' \<mapsto> Num 1, ''__GNUC__'' \<mapsto> Num 13]"
  let ?B = "[''__ARM_NEON__'' \<mapsto> Num 1, ''__APPLE__'' \<mapsto> Num 1, ''__clang__'' \<mapsto> Num 1]"
  have tc: "toolchain_env ?A" "toolchain_env ?B"
    by (simp_all add: toolchain_env_def header_defines_def output_flags_def)
  have ok: "operands_wellformed ?A" "operands_wellformed ?B"
    by (simp_all add: operands_wellformed_def)
  have n: "is_defined ?A ''__ARM_NEON__''" "is_defined ?B ''__ARM_NEON__''"
    by (simp_all add: is_defined_def)
  then have e: "is_defined ?B ''__ARM_NEON__'' = is_defined ?A ''__ARM_NEON__''"
    by simp
  from neon_flag_iff_symbol [OF tc(1) ok(1) tc(2) ok(2) e] n tc ok show ?thesis
    by blast
qed

text \<open>
  C9. The outcome is a function of the symbols the header tests or defines and of nothing
  else: two runs on macro tables that agree on those symbols either fail with the same error
  or end in states that agree on every one of those symbols (all output flags among them),
  on the headers included and on the diagnostics.
\<close>

theorem resolve_depends_on_symbols_only:
  assumes "list_all (\<lambda>n. env1 n = env2 n) (input_symbols @ header_defines)"
  shows "rel_sum (=) agree (resolve env1) (resolve env2)"
proof -
  have "agree (initial env1) (initial env2)"
    using assms by (simp add: agree_def initial_def)
  then show ?thesis
    unfolding resolve_def by (rule agree_resolve_state)
qed

theorem resolve_depends_on_symbols_only_witness:
  "list_all (\<lambda>n. [''__linux__'' \<mapsto> Num 1, ''__GNUC__'' \<mapsto> Num 13] n
                 = [''__linux__'' \<mapsto> Num 1, ''__GNUC__'' \<mapsto> Num 13, ''__STDC__'' \<mapsto> Num 1,
                    ''NDEBUG'' \<mapsto> Empty] n)
     (input_symbols @ header_defines)
   \<and> rel_sum (=) agree
        (resolve [''__linux__'' \<mapsto> Num 1, ''__GNUC__'' \<mapsto> Num 13])
        (resolve [''__linux__'' \<mapsto> Num 1, ''__GNUC__'' \<mapsto> Num 13, ''__STDC__'' \<mapsto> Num 1,
                  ''NDEBUG'' \<mapsto> Empty])"
proof -
  have h: "list_all (\<lambda>n. [''__linux__'' \<mapsto> Num 1, ''__GNUC__'' \<mapsto> Num 13] n
                 = [''__linux__'' \<mapsto> Num 1, ''__GNUC__'' \<mapsto> Num 13, ''__STDC__'' \<mapsto> Num 1,
                    ''NDEBUG'' \<mapsto> Empty] n)
     (input_symbols @ header_defines)"
    by (simp add: input_symbols_def header_defines_def output_flags_def)
  from resolve_depends_on_symbols_only [OF h] h show ?thesis
    by (rule_tac conjI)
qed

text \<open>
  C10. \<^verbatim>\<open>__MACOSX_CORE__\<close> is defined, with the value 1, exactly when
  \<^verbatim>\<open>LABSOUND_PLATFORM_OSX\<close> is set, that is exactly when the family resolved to
  macOS-like.
\<close>

theorem macosx_core_iff_osx:
  assumes "toolchain_env env" and "operands_wellformed env"
  shows "\<exists>s. resolve env = Inr s
     \<and> macros s ''__MACOSX_CORE__''
         = (if is_defined (macros s) ''LABSOUND_PLATFORM_OSX'' then Some (Num 1) else None)
     \<and> is_defined (macros s) ''__MACOSX_CORE__'' = is_defined (macros s) ''LABSOUND_PLATFORM_OSX''
     \<and> is_defined (macros s) ''LABSOUND_PLATFORM_OSX''
         = (\<not> linux_like env \<and> \<not> windows_like env \<and> macos_like env)"
proof -
  from resolved [OF assms] obtain s where "resolve env = Inr s"
    and "macros s ''LABSOUND_PLATFORM_OSX'' =
           (if \<not> linux_like env \<and> \<not> windows_like env \<and> macos_like env
            then Some (Num 1) else None)"
    and "macros s ''__MACOSX_CORE__'' =
           (if \<not> linux_like env \<and> \<not> windows_like env \<and> macos_like env
            then Some (Num 1) else None)"
    by blast
  then show ?thesis
    by (simp add: is_defined_def)
qed

theorem macosx_core_iff_osx_witness:
  "toolchain_env [''__APPLE__'' \<mapsto> Num 1, ''__clang__'' \<mapsto> Num 1]
   \<and> operands_wellformed [''__APPLE__'' \<mapsto> Num 1, ''__clang__'' \<mapsto> Num 1]
   \<and> (\<exists>s. resolve [''__APPLE__'' \<mapsto> Num 1, ''__clang__'' \<mapsto> Num 1] = Inr s
        \<and> macros s ''__MACOSX_CORE__'' = Some (Num 1)
        \<and> is_defined (macros s) ''LABSOUND_PLATFORM_OSX'')"
proof -
  let ?E = "[''__APPLE__'' \<mapsto> Num 1, ''__clang__'' \<mapsto> Num 1]"
  have tc: "toolchain_env ?E"
    by (simp add: toolchain_env_def header_defines_def output_flags_def)
  have ok: "operands_wellformed ?E"
    by (simp add: operands_wellformed_def)
  have m: "\<not> linux_like ?E \<and> \<not> windows_like ?E \<and> macos_like ?E"
    by (simp add: linux_like_def windows_like_def macos_like_def is_defined_def)
  from macosx_core_iff_osx [OF tc ok] obtain s where "resolve ?E = Inr s"
    and "macros s ''__MACOSX_CORE__''
         = (if is_defined (macros s) ''LABSOUND_PLATFORM_OSX'' then Some (Num 1) else None)"
    and "is_defined (macros s) ''LABSOUND_PLATFORM_OSX''
         = (\<not> linux_like ?E \<and> \<not> windows_like ?E \<and> macos_like ?E)"
    by blast
  with m have "resolve ?E = Inr s \<and> macros s ''__MACOSX_CORE__'' = Some (Num 1)
        \<and> is_defined (macros s) ''LABSOUND_PLATFORM_OSX''"
    by simp
  then show ?thesis
    using tc ok by blast
qed

end
